theory Spec2Isabelle
  imports Main "HOL-Library.AList"
begin

section \<open>Strings and paths\<close>

text \<open>
  Python strings are modelled as \<^typ>\<open>string\<close>; member names are taken to be ASCII, so
  that \<^verbatim>\<open>str.lower()\<close> and the flag \<^verbatim>\<open>re.I\<close> only fold the letters A to Z.
\<close>

definition lower_char :: "char \<Rightarrow> char" where
  "lower_char c =
     (case map_of (zip ''ABCDEFGHIJKLMNOPQRSTUVWXYZ'' ''abcdefghijklmnopqrstuvwxyz'') c of
        Some d \<Rightarrow> d
      | None \<Rightarrow> c)"

definition lower :: "string \<Rightarrow> string" where
  "lower s = map lower_char s"

text \<open>\<^verbatim>\<open>s.startswith(p)\<close>\<close>

fun startswith :: "string \<Rightarrow> string \<Rightarrow> bool" where
  "startswith s [] = True"
| "startswith [] (p # ps) = False"
| "startswith (c # cs) (p # ps) = (c = p \<and> startswith cs ps)"

text \<open>\<^verbatim>\<open>s.endswith(p)\<close>\<close>

definition endswith :: "string \<Rightarrow> string \<Rightarrow> bool" where
  "endswith s p = startswith (rev s) (rev p)"

text \<open>\<^verbatim>\<open>sub in s\<close>\<close>

fun contains :: "string \<Rightarrow> string \<Rightarrow> bool" where
  "contains sub [] = (sub = [])"
| "contains sub (c # cs) = (startswith (c # cs) sub \<or> contains sub cs)"

text \<open>\<^verbatim>\<open>s.split(sep)\<close> for a one-character separator.\<close>

fun split_on :: "char \<Rightarrow> string \<Rightarrow> string list" where
  "split_on sep [] = [[]]"
| "split_on sep (c # cs) =
     (if c = sep then [] # split_on sep cs
      else (case split_on sep cs of
              [] \<Rightarrow> [[c]]
            | w # ws \<Rightarrow> (c # w) # ws))"

text \<open>\<^verbatim>\<open>s.rfind(c)\<close>, with \<open>None\<close> for -1.\<close>

fun rfind :: "char \<Rightarrow> string \<Rightarrow> nat option" where
  "rfind c [] = None"
| "rfind c (x # xs) =
     (case rfind c xs of
        Some i \<Rightarrow> Some (Suc i)
      | None \<Rightarrow> if x = c then Some 0 else None)"

text \<open>
  \<^verbatim>\<open>Path(p).name\<close> of a POSIX path: the last component, the empty components and the
  components \<^verbatim>\<open>.\<close> being dropped by the path parser.
\<close>

definition path_name :: "string \<Rightarrow> string" where
  "path_name p =
     (case filter (\<lambda>c. c \<noteq> [] \<and> c \<noteq> ''.'') (split_on CHR ''/'' p) of
        [] \<Rightarrow> []
      | q # qs \<Rightarrow> last (q # qs))"

text \<open>
  \<^verbatim>\<open>Path(name).suffix\<close> for a single component: from the last dot on, when that dot is
  neither the first nor the last character (\<^verbatim>\<open>0 < i < len(name) - 1\<close>, the rule of
  pathlib up to Python 3.13).
\<close>

definition path_suffix :: "string \<Rightarrow> string" where
  "path_suffix name =
     (case rfind CHR ''.'' name of
        None \<Rightarrow> []
      | Some i \<Rightarrow> if 0 < i \<and> Suc i < length name then drop i name else [])"

section \<open>Archive member classification\<close>

text \<open>
  The loop over \<^verbatim>\<open>z.namelist()\<close> in \<^verbatim>\<open>download_and_process\<close>:
  \<^verbatim>\<open>
  nm = Path(member).name
  ext = Path(nm).suffix.lower()
  name_no_ext = nm[: -len(ext)] if ext else nm
  m = re.match(r'(.+?)-(?:main|overlay)', name_no_ext, re.I)
  if not m: continue
  base = m.group(1)
  if '-main' in name_no_ext.lower() and ext in ('.jpg', '.jpeg', '.mp4'):
      mains[base] = member
  elif '-overlay' in name_no_ext.lower() and ext == '.png':
      overlays.setdefault(base, []).append(member)
  \<close>
\<close>

definition member_ext :: "string \<Rightarrow> string" where
  "member_ext member = lower (path_suffix (path_name member))"

definition name_no_ext :: "string \<Rightarrow> string" where
  "name_no_ext member =
     (let nm = path_name member; ext = member_ext member
      in if ext \<noteq> [] then take (length nm - length ext) nm else nm)"

text \<open>The alternative \<^verbatim>\<open>-(?:main|overlay)\<close> under \<^verbatim>\<open>re.I\<close>, tried at the head of \<open>s\<close>.\<close>

definition marker_at :: "string \<Rightarrow> bool" where
  "marker_at s = (startswith (lower s) ''-main'' \<or> startswith (lower s) ''-overlay'')"

text \<open>
  \<^verbatim>\<open>re.match(r'(.+?)-(?:main|overlay)', s, re.I)\<close>: the lazy group takes one character
  at a time (never a newline, and at least one character) until the marker follows it;
  the result is group 1. \<open>pre\<close> is what the group has consumed so far.
\<close>

fun re_match_from :: "string \<Rightarrow> string \<Rightarrow> string option" where
  "re_match_from pre [] = None"
| "re_match_from pre (c # cs) =
     (if pre \<noteq> [] \<and> marker_at (c # cs) then Some pre
      else if c = CHR 0x0A then None
      else re_match_from (pre @ [c]) cs)"

definition re_match_base :: "string \<Rightarrow> string option" where
  "re_match_base s = re_match_from [] s"

datatype member_class = Main string | Overlay string | Ignored

definition classify :: "string \<Rightarrow> member_class" where
  "classify member =
     (case re_match_base (name_no_ext member) of
        None \<Rightarrow> Ignored
      | Some base \<Rightarrow>
          if contains ''-main'' (lower (name_no_ext member))
             \<and> member_ext member \<in> set [''.jpg'', ''.jpeg'', ''.mp4'']
          then Main base
          else if contains ''-overlay'' (lower (name_no_ext member))
                  \<and> member_ext member = ''.png''
          then Overlay base
          else Ignored)"

text \<open>
  The two dictionaries: \<open>mains\<close> maps a base name to one member name, \<open>overlays\<close> maps a
  base name to the list of its overlay members. A Python dictionary keeps its keys in the
  order of their first insertion, which is what \<^const>\<open>AList.update\<close> does.
\<close>

type_synonym mains_dict = "(string \<times> string) list"
type_synonym overlays_dict = "(string \<times> string list) list"

text \<open>\<^verbatim>\<open>d.get(k, [])\<close>\<close>

definition get_list :: "('k \<times> 'v list) list \<Rightarrow> 'k \<Rightarrow> 'v list" where
  "get_list d k = (case map_of d k of None \<Rightarrow> [] | Some v \<Rightarrow> v)"

definition collect_step :: "string \<Rightarrow> mains_dict \<times> overlays_dict \<Rightarrow> mains_dict \<times> overlays_dict" where
  "collect_step member d =
     (case classify member of
        Ignored \<Rightarrow> d
      | Main base \<Rightarrow> (AList.update base member (fst d), snd d)
      | Overlay base \<Rightarrow> (fst d, AList.update base (get_list (snd d) base @ [member]) (snd d)))"

definition collect_members :: "string list \<Rightarrow> mains_dict \<times> overlays_dict" where
  "collect_members names = fold collect_step names ([], [])"

section \<open>Records, the outside world and the program state\<close>

text \<open>
  A record of the export, after the script has parsed the table and assigned the
  filename prefix (key \<^verbatim>\<open>'_prefix'\<close>, here \<open>u_prefix\<close>). The parsing of the HTML document
  and the derivation of the prefix are outside the model.
\<close>

record memory =
  Date :: string
  Media_Type :: string
  Location :: string
  Media_Download_Url :: "string option"
  Download_Link :: "string option"
  u_prefix :: string

type_synonym bytes = "nat list"

text \<open>A decoded RGBA pixel buffer; its content is opaque to the program.\<close>

type_synonym image = "nat list"

text \<open>The matched decimal text of a coordinate; the program only tests it for \<^verbatim>\<open>None\<close>.\<close>

type_synonym coord = string

datatype service = Service

text \<open>
  The dictionaries \<^verbatim>\<open>app_props\<close> and \<^verbatim>\<open>meta\<close> built in \<^verbatim>\<open>save_or_upload_bytes\<close>.
\<close>

record metadata =
  m_Date :: string
  m_MediaType :: string
  m_Location :: string
  m_Latitude :: "coord option"
  m_Longitude :: "coord option"
  m_Source :: "string option"

text \<open>
  The messages of the modelled part of the script, one constructor for each \<^verbatim>\<open>print\<close>
  statement (the three lines printed when Google Drive is chosen are one message).
\<close>

datatype diag =
    GDriveSelected
  | SANeeded
  | InitFailed
  | FolderInaccessible
  | FolderCreated string
  | FolderCreateFailed
  | ListingFailed
  | LocalListFailed
  | DiskUnknown
  | DiskInsufficient nat nat
  | QuotaQueryFailed
  | QuotaLimitUnknown
  | QuotaParseError
  | QuotaInsufficient nat int
  | NotConfigured
  | DeleteFailed string string
  | QuotaExceeded
  | UploadFailed string
  | MetaFailed string
  | NewSkipping nat nat
  | Processing string string string
  | HttpError string
  | DownloadError string
  | ZipOpenFailed string
  | NoMain string
  | PillowMissing
  | ReadMainFailed string string
  | OverlayApplyFailed string string
  | CompositeFailed string
  | FfmpegMissing
  | OverlayDecodeSkipped string
  | FfmpegFailed string string
  | VideoOverlayFailed string string
  | UnsupportedMain string
  | SaveFailed string string
  | Downloaded nat

text \<open>
  What the run does to the outside world, in order: the messages printed, the calls of
  \<^verbatim>\<open>save_or_upload_bytes\<close>, and the destination operations invoked.
\<close>

datatype event =
    Print diag
  | Commit string
  | DriveDelete string
  | DriveCreate string bytes string metadata
  | FileWrite string bytes
  | ReportWrite

text \<open>
  \<^verbatim>\<open>sys.exit(1)\<close> after the message printed just before it, or an exception that no
  handler catches; both end the process.
\<close>

datatype fatal = SysExit diag | Uncaught

text \<open>A call that may raise an exception which its caller handles.\<close>

datatype 'a completion = Raise | Return 'a

text \<open>
  The dictionary returned by \<^verbatim>\<open>save_or_upload_bytes\<close>; \<open>SavedName\<close> is the plain file
  name that the non-archive path appends to \<^verbatim>\<open>saved_files\<close> instead.
\<close>

datatype info =
    Skipped "string list"
  | Uploaded string "string option"
  | Saved string
  | SavedName string

datatype http_result = HTTPError | OtherError | Response bytes "string option"

record zipfile =
  namelist :: "string list"
  zread :: "string \<Rightarrow> bytes option"

datatype run_result = RunRaised | Completed int bytes

datatype qval = QAbsent | QGarbage | QInt int

datatype create_result = Created string "string option" | CreateQuotaError | CreateError

record user_input =
  in_choice :: string
  in_sa :: string
  in_folder :: string
  in_cm :: string

text \<open>
  The libraries and services the script calls. \<open>None\<close> (or \<open>False\<close>) stands for the call
  raising an exception.
\<close>

record env =
  urlopen :: "string \<Rightarrow> http_result"
  urlparse_path :: "string \<Rightarrow> string"
  is_zipfile :: "bytes \<Rightarrow> bool"
  ZipFile :: "bytes \<Rightarrow> zipfile option"
  pil_available :: bool
  Image_open :: "bytes \<Rightarrow> image option"
  alpha_composite :: "image \<Rightarrow> image \<Rightarrow> image option"
  save_jpeg :: "image \<Rightarrow> bytes option"
  save_png :: "image \<Rightarrow> bytes option"
  which_ffmpeg :: "string option"
  tmp_ok :: bool
  subprocess_run :: "string \<Rightarrow> bytes \<Rightarrow> bytes \<Rightarrow> run_result"
  disk_usage :: "(string \<times> bytes) list \<Rightarrow> nat option"
  file_write_ok :: "string \<Rightarrow> bytes \<Rightarrow> bool"
  local_list_ok :: bool
  regex_coords :: "string \<Rightarrow> (coord \<times> coord) option"
  piexif_available :: bool
  exif_insert :: "bytes \<Rightarrow> metadata \<Rightarrow> bytes option"
  mp4_tag :: "bytes \<Rightarrow> metadata \<Rightarrow> bytes option"
  ads_write :: "string \<Rightarrow> bool"
  init_gdrive_service :: "string \<Rightarrow> service option"
  folder_get_ok :: "string \<Rightarrow> bool"
  create_gdrive_folder :: "string \<Rightarrow> string option"
  drive_list_ok :: bool
  about_get :: "(string \<times> string \<times> bytes) list \<Rightarrow> (qval \<times> qval) option"
  drive_delete :: "string \<Rightarrow> bool"
  drive_create :: "string \<Rightarrow> bytes \<Rightarrow> (string \<times> string \<times> bytes) list \<Rightarrow> create_result"

text \<open>
  The module globals, the two destinations and the trace. \<open>drive\<close> holds the objects of
  the target folder as (id, name, content); \<open>local_files\<close> is the directory
  \<^verbatim>\<open>SNAPCHAT_DIR\<close>, name to content.
\<close>

record state =
  DESTINATION :: string
  GDRIVE_SERVICE :: "service option"
  GDRIVE_FOLDER_ID :: "string option"
  CONFLICT_MODE :: string
  GDRIVE_EXISTING :: "(string \<times> string list) list"
  drive :: "(string \<times> string \<times> bytes) list"
  local_files :: "(string \<times> bytes) list"
  trace :: "event list"

text \<open>The globals as the module initialises them, over a given outside world.\<close>

definition initial_state :: "(string \<times> string \<times> bytes) list \<Rightarrow> (string \<times> bytes) list \<Rightarrow> state" where
  "initial_state d l =
     \<lparr>DESTINATION = ''local'', GDRIVE_SERVICE = None, GDRIVE_FOLDER_ID = None,
      CONFLICT_MODE = ''skip'', GDRIVE_EXISTING = [], drive = d, local_files = l, trace = []\<rparr>"

definition emit :: "event \<Rightarrow> state \<Rightarrow> state" where
  "emit e st = st\<lparr>trace := trace st @ [e]\<rparr>"

definition say :: "diag \<Rightarrow> state \<Rightarrow> state" where
  "say d st = emit (Print d) st"

text \<open>\<^verbatim>\<open>print(...); sys.exit(1)\<close>\<close>

definition die :: "diag \<Rightarrow> state \<Rightarrow> (fatal + 'a) \<times> state" where
  "die d st = (Inl (SysExit d), say d st)"

text \<open>Truth value of an optional string: \<^verbatim>\<open>None\<close> and the empty string are false.\<close>

definition truthy :: "string option \<Rightarrow> bool" where
  "truthy v = (case v of None \<Rightarrow> False | Some s \<Rightarrow> s \<noteq> [])"

text \<open>\<^verbatim>\<open>a or b\<close>\<close>

definition py_or :: "string option \<Rightarrow> string option \<Rightarrow> string option" where
  "py_or a b = (if truthy a then a else b)"

text \<open>\<^verbatim>\<open>GDRIVE_SERVICE and GDRIVE_FOLDER_ID\<close>\<close>

definition configured :: "state \<Rightarrow> bool" where
  "configured st = (GDRIVE_SERVICE st \<noteq> None \<and> truthy (GDRIVE_FOLDER_ID st))"

section \<open>Capacity guards\<close>

text \<open>\<^verbatim>\<open>check_local_space\<close>: exits when the free space is unknown or too small.\<close>

definition check_local_space :: "env \<Rightarrow> nat \<Rightarrow> state \<Rightarrow> (fatal + unit) \<times> state" where
  "check_local_space env required st =
     (case disk_usage env (local_files st) of
        None \<Rightarrow> die DiskUnknown st
      | Some free \<Rightarrow>
          if free < required then die (DiskInsufficient required free) st
          else (Inr (), st))"

text \<open>
  \<^verbatim>\<open>check_gdrive_space\<close>. A quota field is absent (or empty), unparsable by \<^verbatim>\<open>int\<close>, or
  a number; an absent usage counts as 0, an absent limit is fatal.
\<close>

definition check_gdrive_space :: "env \<Rightarrow> nat \<Rightarrow> state \<Rightarrow> (fatal + unit) \<times> state" where
  "check_gdrive_space env required st =
     (case about_get env (drive st) of
        None \<Rightarrow> die QuotaQueryFailed st
      | Some (limit, usage) \<Rightarrow>
          (case limit of
             QAbsent \<Rightarrow> die QuotaLimitUnknown st
           | QGarbage \<Rightarrow> die QuotaParseError st
           | QInt l \<Rightarrow>
               (case usage of
                  QGarbage \<Rightarrow> die QuotaParseError st
                | QAbsent \<Rightarrow>
                    if l < int required then die (QuotaInsufficient required l) st
                    else (Inr (), st)
                | QInt u \<Rightarrow>
                    if l - u < int required then die (QuotaInsufficient required (l - u)) st
                    else (Inr (), st))))"

section \<open>Metadata\<close>

text \<open>
  \<^verbatim>\<open>parse_location\<close>: an empty location has no coordinates; otherwise the two regular
  expression searches decide (taken from the environment).
\<close>

definition parse_location :: "env \<Rightarrow> string \<Rightarrow> coord option \<times> coord option" where
  "parse_location env location_str =
     (if location_str = [] then (None, None)
      else (case regex_coords env location_str of
              None \<Rightarrow> (None, None)
            | Some (la, lo) \<Rightarrow> (Some la, Some lo)))"

definition record_metadata :: "env \<Rightarrow> memory \<Rightarrow> metadata" where
  "record_metadata env rec =
     \<lparr>m_Date = Date rec, m_MediaType = Media_Type rec, m_Location = Location rec,
      m_Latitude = fst (parse_location env (Location rec)),
      m_Longitude = snd (parse_location env (Location rec)),
      m_Source = py_or (Media_Download_Url rec) (Download_Link rec)\<rparr>"

text \<open>
  \<^verbatim>\<open>write_file_metadata\<close>. Every statement of the source function sits in a handler for
  \<^verbatim>\<open>Exception\<close>, so the function always returns a truth value:
  \<^item> JPEG: when the EXIF library and Pillow import, a record without coordinates returns
    \<^verbatim>\<open>False\<close>
    at once; otherwise the GPS block is inserted into the file, and a failure falls
    through (\<^verbatim>\<open>except Exception: pass\<close>);
  \<^item> MP4: the tag is written into the file, a failure falls through;
  \<^item> last, the alternate data stream; only its failure is printed.
  The EXIF block and the MP4 tag change the content of the file; the data stream is
  attached beside it and is not part of \<open>local_files\<close>.
\<close>

definition write_file_metadata :: "env \<Rightarrow> string \<Rightarrow> metadata \<Rightarrow> state \<Rightarrow> bool \<times> state" where
  "write_file_metadata env path meta st =
     (let suffix = lower (path_suffix (path_name path));
          content = (case map_of (local_files st) path of None \<Rightarrow> [] | Some b \<Rightarrow> b);
          is_jpeg = (suffix \<in> set [''.jpg'', ''.jpeg'']
                     \<and> piexif_available env \<and> pil_available env)
      in if is_jpeg \<and> (m_Latitude meta = None \<or> m_Longitude meta = None) then (False, st)
         else (case (if is_jpeg then exif_insert env content meta else None) of
                 Some b \<Rightarrow> (True, st\<lparr>local_files := AList.update path b (local_files st)\<rparr>)
               | None \<Rightarrow>
                   (case (if suffix = ''.mp4'' then mp4_tag env content meta else None) of
                      Some b \<Rightarrow> (True, st\<lparr>local_files := AList.update path b (local_files st)\<rparr>)
                    | None \<Rightarrow>
                        if ads_write env path then (True, st)
                        else (False, say (MetaFailed path) st))))"

section \<open>Committing bytes to the destination\<close>

text \<open>
  The loop \<^verbatim>\<open>for fid in existing_ids: delete_gdrive_file(...)\<close> of the overwrite mode; a
  failed delete prints and exits.
\<close>

fun delete_existing :: "env \<Rightarrow> string \<Rightarrow> string list \<Rightarrow> state \<Rightarrow> (fatal + unit) \<times> state" where
  "delete_existing env filename [] st = (Inr (), st)"
| "delete_existing env filename (fid # fids) st =
     (if drive_delete env fid
      then delete_existing env filename fids
             ((emit (DriveDelete fid) st)\<lparr>drive := filter (\<lambda>obj. fst obj \<noteq> fid) (drive st)\<rparr>)
      else die (DeleteFailed fid filename) (emit (DriveDelete fid) st))"

definition mime_of :: "string \<Rightarrow> string" where
  "mime_of ext =
     (if ext \<in> set [''.jpg'', ''.jpeg''] then ''image/jpeg''
      else if ext = ''.mp4'' then ''video/mp4''
      else ''application/octet-stream'')"

text \<open>
  \<^verbatim>\<open>upload_bytes_to_gdrive\<close>: the created object (id, link), an exit on a quota or
  permission error, or another exception raised to the caller.
\<close>

definition upload_bytes_to_gdrive ::
  "env \<Rightarrow> string \<Rightarrow> bytes \<Rightarrow> string \<Rightarrow> metadata \<Rightarrow> state
   \<Rightarrow> (fatal + (string \<times> string option) completion) \<times> state" where
  "upload_bytes_to_gdrive env filename bts mime app_props st =
     (let st1 = emit (DriveCreate filename bts mime app_props) st
      in case drive_create env filename bts (drive st) of
           Created fid link \<Rightarrow>
             (Inr (Return (fid, link)), st1\<lparr>drive := drive st @ [(fid, filename, bts)]\<rparr>)
         | CreateQuotaError \<Rightarrow> die QuotaExceeded st1
         | CreateError \<Rightarrow> (Inr Raise, st1))"

text \<open>
  \<^verbatim>\<open>save_or_upload_bytes\<close>, remote branch after the guards: the conflict handling on the
  in-memory dictionary \<^verbatim>\<open>GDRIVE_EXISTING\<close>, then the upload.
\<close>

definition gdrive_put :: "env \<Rightarrow> bytes \<Rightarrow> string \<Rightarrow> memory \<Rightarrow> string \<Rightarrow> state \<Rightarrow> (fatal + info completion) \<times> state" where
  "gdrive_put env bts filename rec ext st =
     (case upload_bytes_to_gdrive env filename bts (mime_of ext) (record_metadata env rec) st of
        (Inl f, st1) \<Rightarrow> (Inl f, st1)
      | (Inr Raise, st1) \<Rightarrow> die (UploadFailed filename) st1
      | (Inr (Return (fid, link)), st1) \<Rightarrow>
          (Inr (Return (Uploaded fid link)),
           st1\<lparr>GDRIVE_EXISTING :=
                 AList.update filename (get_list (GDRIVE_EXISTING st1) filename @ [fid])
                   (GDRIVE_EXISTING st1)\<rparr>))"

definition gdrive_commit :: "env \<Rightarrow> bytes \<Rightarrow> string \<Rightarrow> memory \<Rightarrow> string \<Rightarrow> state \<Rightarrow> (fatal + info completion) \<times> state" where
  "gdrive_commit env bts filename rec ext st =
     (let existing_ids = get_list (GDRIVE_EXISTING st) filename
      in if existing_ids \<noteq> [] \<and> CONFLICT_MODE st = ''skip''
         then (Inr (Return (Skipped existing_ids)), st)
         else if existing_ids \<noteq> [] \<and> CONFLICT_MODE st = ''overwrite''
         then (case delete_existing env filename existing_ids st of
                 (Inl f, st1) \<Rightarrow> (Inl f, st1)
               | (Inr u, st1) \<Rightarrow>
                   gdrive_put env bts filename rec ext
                     (st1\<lparr>GDRIVE_EXISTING := AList.delete filename (GDRIVE_EXISTING st1)\<rparr>))
         else gdrive_put env bts filename rec ext st)"

text \<open>
  \<^verbatim>\<open>save_or_upload_bytes\<close>, local branch after the guard: \<^verbatim>\<open>save_bytes_to_file\<close> (which
  may raise), then the metadata, whose result is dropped.
\<close>

definition local_commit :: "env \<Rightarrow> bytes \<Rightarrow> string \<Rightarrow> memory \<Rightarrow> state \<Rightarrow> (fatal + info completion) \<times> state" where
  "local_commit env bts filename rec st =
     (let st1 = emit (FileWrite filename bts) st
      in if \<not> file_write_ok env filename bts then (Inr Raise, st1)
         else (Inr (Return (Saved filename)),
               snd (write_file_metadata env filename (record_metadata env rec)
                      (st1\<lparr>local_files := AList.update filename bts (local_files st1)\<rparr>))))"

definition save_or_upload_bytes :: "env \<Rightarrow> bytes \<Rightarrow> string \<Rightarrow> memory \<Rightarrow> string \<Rightarrow> state \<Rightarrow> (fatal + info completion) \<times> state" where
  "save_or_upload_bytes env bts filename rec ext st0 =
     (let st = emit (Commit filename) st0; required = length bts
      in if DESTINATION st = ''gdrive''
         then if \<not> configured st then die NotConfigured st
              else (case check_gdrive_space env required st of
                      (Inl f, st1) \<Rightarrow> (Inl f, st1)
                    | (Inr u, st1) \<Rightarrow> gdrive_commit env bts filename rec ext st1)
         else (case check_local_space env required st of
                 (Inl f, st1) \<Rightarrow> (Inl f, st1)
               | (Inr u, st1) \<Rightarrow> local_commit env bts filename rec st1))"

section \<open>Names and extensions\<close>

text \<open>White space of \<^verbatim>\<open>str.strip()\<close> and of \<^verbatim>\<open>\s\<close>, within ASCII.\<close>

definition is_space :: "char \<Rightarrow> bool" where
  "is_space c =
     (c \<in> set [CHR 0x20, CHR 0x09, CHR 0x0A, CHR 0x0B, CHR 0x0C, CHR 0x0D,
                CHR 0x1C, CHR 0x1D, CHR 0x1E, CHR 0x1F])"

definition strip :: "string \<Rightarrow> string" where
  "strip s = rev (dropWhile is_space (rev (dropWhile is_space s)))"

text \<open>\<^verbatim>\<open>re.sub(r"\s+", "_", s)\<close>; the flag tells whether the previous character was white.\<close>

fun collapse_ws :: "bool \<Rightarrow> string \<Rightarrow> string" where
  "collapse_ws in_run [] = []"
| "collapse_ws in_run (c # cs) =
     (if is_space c
      then (if in_run then collapse_ws True cs else CHR ''_'' # collapse_ws True cs)
      else c # collapse_ws False cs)"

definition keep_char :: "char \<Rightarrow> bool" where
  "keep_char c =
     (c \<in> set ''ABCDEFGHIJKLMNOPQRSTUVWXYZabcdefghijklmnopqrstuvwxyz0123456789._-'')"

definition sanitize_prefix :: "string \<Rightarrow> string \<Rightarrow> string" where
  "sanitize_prefix date_str location_str =
     map (\<lambda>c. if keep_char c then c else CHR ''_'')
       (collapse_ws False (date_str @ ''_'' @ location_str))"

definition get_extension_from_content_type :: "string option \<Rightarrow> string option" where
  "get_extension_from_content_type ct =
     (case ct of
        None \<Rightarrow> None
      | Some s \<Rightarrow>
          if s = [] then None
          else (let c = lower (strip (takeWhile (\<lambda>x. x \<noteq> CHR '';'') s))
                in if c \<in> set [''image/jpeg'', ''image/jpg''] then Some ''.jpg''
                   else if c = ''image/png'' then Some ''.png''
                   else if c = ''video/mp4'' then Some ''.mp4''
                   else if c = ''application/zip'' then Some ''.zip''
                   else None))"

text \<open>\<^verbatim>\<open>str(n)\<close> for a natural number.\<close>

definition digit_char :: "nat \<Rightarrow> char" where
  "digit_char d = ''0123456789'' ! d"

function str_nat :: "nat \<Rightarrow> string" where
  "str_nat n = (if n < 10 then [digit_char n] else str_nat (n div 10) @ [digit_char (n mod 10)])"
  by pat_completeness auto
termination
  by (relation "measure id") auto

declare str_nat.simps [simp del]

text \<open>\<^verbatim>\<open>prefix [+ "_" + str(count) if count > 0] + ext_inner\<close>\<close>

definition out_filename :: "string \<Rightarrow> nat \<Rightarrow> string \<Rightarrow> string" where
  "out_filename prefix count ext_inner =
     prefix @ (if count > 0 then ''_'' @ str_nat count else []) @ ext_inner"

section \<open>Compositing one group\<close>

text \<open>
  Image main, the loop over the overlay members: reading, decoding or compositing an
  overlay that raises is printed and exits.
\<close>

fun image_overlays :: "env \<Rightarrow> zipfile \<Rightarrow> string \<Rightarrow> image \<Rightarrow> string list \<Rightarrow> state \<Rightarrow> (fatal + image) \<times> state" where
  "image_overlays env z main_member img [] st = (Inr img, st)"
| "image_overlays env z main_member img (om # oms) st =
     (case zread z om of
        None \<Rightarrow> die (OverlayApplyFailed om main_member) st
      | Some overlay_bytes \<Rightarrow>
          (case Image_open env overlay_bytes of
             None \<Rightarrow> die (OverlayApplyFailed om main_member) st
           | Some overlay_img \<Rightarrow>
               (case alpha_composite env img overlay_img of
                  None \<Rightarrow> die (OverlayApplyFailed om main_member) st
                | Some img' \<Rightarrow> image_overlays env z main_member img' oms st)))"

text \<open>
  Image main: decode, composite, encode as JPEG, commit. Any other exception in this
  block, also one raised by the commit, is printed and exits.
\<close>

definition process_image ::
  "env \<Rightarrow> zipfile \<Rightarrow> memory \<Rightarrow> string \<Rightarrow> string \<Rightarrow> bytes \<Rightarrow> string list \<Rightarrow> string \<Rightarrow> state
   \<Rightarrow> (fatal + info) \<times> state" where
  "process_image env z rec filename main_member main_bytes overlay_members ext_inner st =
     (case Image_open env main_bytes of
        None \<Rightarrow> die (CompositeFailed main_member) st
      | Some img \<Rightarrow>
          (case image_overlays env z main_member img overlay_members st of
             (Inl f, st1) \<Rightarrow> (Inl f, st1)
           | (Inr img', st1) \<Rightarrow>
               (case save_jpeg env img' of
                  None \<Rightarrow> die (CompositeFailed main_member) st1
                | Some out_bytes \<Rightarrow>
                    (case save_or_upload_bytes env out_bytes filename rec ext_inner st1 of
                       (Inl f, st2) \<Rightarrow> (Inl f, st2)
                     | (Inr Raise, st2) \<Rightarrow> die (CompositeFailed main_member) st2
                     | (Inr (Return res), st2) \<Rightarrow> (Inr res, st2)))))"

text \<open>
  Video main, the chain of overlay steps. \<open>cur\<close> is the content of the current input
  file. An overlay member that cannot be read, or a tool call that raises, exits; an
  overlay that does not decode (or cannot be stored as PNG) is printed and skipped; a
  tool run with a non-zero return code exits; otherwise the output of the step is the
  input of the next.
\<close>

fun video_chain :: "env \<Rightarrow> zipfile \<Rightarrow> string \<Rightarrow> string \<Rightarrow> bytes \<Rightarrow> string list \<Rightarrow> state \<Rightarrow> (fatal + bytes) \<times> state" where
  "video_chain env z ffmpeg_path main_member cur [] st = (Inr cur, st)"
| "video_chain env z ffmpeg_path main_member cur (om # oms) st =
     (case zread z om of
        None \<Rightarrow> die (VideoOverlayFailed om main_member) st
      | Some overlay_bytes \<Rightarrow>
          (case (case Image_open env overlay_bytes of
                   None \<Rightarrow> None
                 | Some img \<Rightarrow> save_png env img) of
             None \<Rightarrow>
               video_chain env z ffmpeg_path main_member cur oms (say (OverlayDecodeSkipped om) st)
           | Some tmp_overlay \<Rightarrow>
               (case subprocess_run env ffmpeg_path cur tmp_overlay of
                  RunRaised \<Rightarrow> die (VideoOverlayFailed om main_member) st
                | Completed returncode tmp_out \<Rightarrow>
                    if returncode \<noteq> 0 then die (FfmpegFailed om main_member) st
                    else video_chain env z ffmpeg_path main_member tmp_out oms st)))"

text \<open>
  Video main: the tool must be on the path; the temporary directory and the copy of
  the main member must be writable (an exception there is caught nowhere); after the
  chain the final bytes are committed, and an exception of the commit is caught nowhere.
\<close>

definition process_video ::
  "env \<Rightarrow> zipfile \<Rightarrow> memory \<Rightarrow> string \<Rightarrow> string \<Rightarrow> bytes \<Rightarrow> string list \<Rightarrow> string \<Rightarrow> state
   \<Rightarrow> (fatal + info) \<times> state" where
  "process_video env z rec filename main_member main_bytes overlay_members ext_inner st =
     (case which_ffmpeg env of
        None \<Rightarrow> die FfmpegMissing st
      | Some ffmpeg_path \<Rightarrow>
          if ffmpeg_path = [] then die FfmpegMissing st
          else if \<not> tmp_ok env then (Inl Uncaught, st)
          else (case video_chain env z ffmpeg_path main_member main_bytes overlay_members st of
                  (Inl f, st1) \<Rightarrow> (Inl f, st1)
                | (Inr final_bytes, st1) \<Rightarrow>
                    (case save_or_upload_bytes env final_bytes filename rec ext_inner st1 of
                       (Inl f, st2) \<Rightarrow> (Inl f, st2)
                     | (Inr Raise, st2) \<Rightarrow> (Inl Uncaught, st2)
                     | (Inr (Return res), st2) \<Rightarrow> (Inr res, st2))))"

text \<open>
  The loop \<^verbatim>\<open>for base, main_member in mains.items()\<close>, with the counter and the list
  \<^verbatim>\<open>saved_files\<close>.
\<close>

fun process_mains ::
  "env \<Rightarrow> zipfile \<Rightarrow> memory \<Rightarrow> string \<Rightarrow> string \<Rightarrow> overlays_dict \<Rightarrow> mains_dict \<Rightarrow> nat \<Rightarrow> info list \<Rightarrow> state
   \<Rightarrow> (fatal + info list) \<times> state" where
  "process_mains env z rec url prefix overlays [] count saved_files st = (Inr saved_files, st)"
| "process_mains env z rec url prefix overlays ((base, main_member) # rest) count saved_files st =
     (case zread z main_member of
        None \<Rightarrow>
          process_mains env z rec url prefix overlays rest count saved_files
            (say (ReadMainFailed main_member url) st)
      | Some main_bytes \<Rightarrow>
          if member_ext main_member \<in> set [''.jpg'', ''.jpeg'']
          then (case process_image env z rec (out_filename prefix count (member_ext main_member))
                       main_member main_bytes (get_list overlays base) (member_ext main_member) st of
                  (Inl f, st1) \<Rightarrow> (Inl f, st1)
                | (Inr res, st1) \<Rightarrow>
                    process_mains env z rec url prefix overlays rest (Suc count)
                      (saved_files @ [res]) st1)
          else if member_ext main_member = ''.mp4''
          then (case process_video env z rec (out_filename prefix count (member_ext main_member))
                       main_member main_bytes (get_list overlays base) (member_ext main_member) st of
                  (Inl f, st1) \<Rightarrow> (Inl f, st1)
                | (Inr res, st1) \<Rightarrow>
                    process_mains env z rec url prefix overlays rest (Suc count)
                      (saved_files @ [res]) st1)
          else process_mains env z rec url prefix overlays rest count saved_files
                 (say (UnsupportedMain main_member) st))"

section \<open>One record\<close>

text \<open>The archive branch of \<^verbatim>\<open>download_and_process\<close>, once the archive is open.\<close>

definition process_zip :: "env \<Rightarrow> zipfile \<Rightarrow> memory \<Rightarrow> string \<Rightarrow> string \<Rightarrow> state \<Rightarrow> (fatal + info list option) \<times> state" where
  "process_zip env z rec url prefix st =
     (let mains = fst (collect_members (namelist z));
          overlays = snd (collect_members (namelist z))
      in if mains = [] then (Inr (Some []), say (NoMain url) st)
         else if \<not> pil_available env then die PillowMissing st
         else (case process_mains env z rec url prefix overlays mains 0 [] st of
                 (Inl f, st1) \<Rightarrow> (Inl f, st1)
               | (Inr saved_files, st1) \<Rightarrow> (Inr (Some saved_files), st1)))"

text \<open>The branch for a payload that is not an archive.\<close>

definition process_plain :: "env \<Rightarrow> bytes \<Rightarrow> string option \<Rightarrow> memory \<Rightarrow> string \<Rightarrow> string \<Rightarrow> state \<Rightarrow> (fatal + info list option) \<times> state" where
  "process_plain env data ext rec url prefix st =
     (let ext_from_url = path_suffix (path_name (urlparse_path env url));
          final_ext = (if ext_from_url \<noteq> [] then lower ext_from_url
                       else (case ext of
                               None \<Rightarrow> ''.bin''
                             | Some e \<Rightarrow> if e = [] then ''.bin'' else lower e));
          out_name = prefix @ final_ext
      in case save_or_upload_bytes env data out_name rec final_ext st of
           (Inl f, st1) \<Rightarrow> (Inl f, st1)
         | (Inr Raise, st1) \<Rightarrow> (Inr (Some []), say (SaveFailed url out_name) st1)
         | (Inr (Return res), st1) \<Rightarrow> (Inr (Some [SavedName out_name]), st1))"

text \<open>
  \<^verbatim>\<open>download_and_process\<close>. The result \<open>None\<close> is Python's \<^verbatim>\<open>None\<close> (no URL, a failed
  download, an archive that does not open).
\<close>

definition download_and_process :: "env \<Rightarrow> memory \<Rightarrow> state \<Rightarrow> (fatal + info list option) \<times> state" where
  "download_and_process env rec st =
     (case py_or (Media_Download_Url rec) (Download_Link rec) of
        None \<Rightarrow> (Inr None, st)
      | Some url \<Rightarrow>
          if url = [] then (Inr None, st)
          else (let prefix = (if u_prefix rec \<noteq> [] then u_prefix rec
                              else sanitize_prefix (Date rec) (Location rec))
                in case urlopen env url of
                     HTTPError \<Rightarrow> (Inr None, say (HttpError url) st)
                   | OtherError \<Rightarrow> (Inr None, say (DownloadError url) st)
                   | Response data content_type \<Rightarrow>
                       if get_extension_from_content_type content_type = Some ''.zip''
                          \<or> endswith (lower url) ''.zip'' \<or> is_zipfile env data
                       then (case ZipFile env data of
                               None \<Rightarrow> (Inr None, say (ZipOpenFailed url) st)
                             | Some z \<Rightarrow> process_zip env z rec url prefix st)
                       else process_plain env data (get_extension_from_content_type content_type)
                              rec url prefix st))"

section \<open>The run\<close>

text \<open>
  \<^verbatim>\<open>build_gdrive_existing_map\<close>: file name to the list of the ids under that name; the
  paging of the listing is not modelled.
\<close>

definition build_gdrive_existing_map :: "env \<Rightarrow> (string \<times> string \<times> bytes) list \<Rightarrow> (string \<times> string list) list option" where
  "build_gdrive_existing_map env objs =
     (if drive_list_ok env
      then Some (fold (\<lambda>obj existing.
                    AList.update (fst (snd obj)) (get_list existing (fst (snd obj)) @ [fst obj]) existing)
                  objs [])
      else None)"

text \<open>
  \<^verbatim>\<open>prompt_destination\<close>. Its \<^verbatim>\<open>global\<close> statement names \<^verbatim>\<open>DESTINATION\<close>,
  \<^verbatim>\<open>GDRIVE_SERVICE\<close>, \<^verbatim>\<open>GDRIVE_FOLDER_ID\<close> and \<^verbatim>\<open>CONFLICT_MODE\<close>, and not
  \<^verbatim>\<open>GDRIVE_EXISTING\<close>: the assignment
  \<^verbatim>\<open>GDRIVE_EXISTING = build_gdrive_existing_map(...)\<close> binds a name local to the function,
  and the module's dictionary keeps its initial value. The listing can still fail and exit.
\<close>

definition prompt_destination :: "env \<Rightarrow> user_input \<Rightarrow> state \<Rightarrow> (fatal + unit) \<times> state" where
  "prompt_destination env inp st =
     (if lower (strip (in_choice inp)) = ''gdrive''
      then (let cm = lower (strip (in_cm inp));
                st1 = say GDriveSelected (st\<lparr>DESTINATION := ''gdrive''\<rparr>);
                st2 = (if cm \<in> set [''overwrite'', ''skip''] then st1\<lparr>CONFLICT_MODE := cm\<rparr>
                       else if cm = ''new'' then st1\<lparr>CONFLICT_MODE := ''new''\<rparr>
                       else st1)
            in if strip (in_sa inp) = [] then die SANeeded st2
               else (case init_gdrive_service env (strip (in_sa inp)) of
                       None \<Rightarrow> (Inr (), say InitFailed st2)
                     | Some svc \<Rightarrow>
                         (case (if strip (in_folder inp) \<noteq> []
                                then (if folder_get_ok env (strip (in_folder inp))
                                      then (Inr (),
                                            st2\<lparr>GDRIVE_SERVICE := Some svc,
                                                 GDRIVE_FOLDER_ID := Some (strip (in_folder inp))\<rparr>)
                                      else die FolderInaccessible
                                             (st2\<lparr>GDRIVE_SERVICE := Some svc,
                                                   GDRIVE_FOLDER_ID := Some (strip (in_folder inp))\<rparr>))
                                else (case create_gdrive_folder env ''snapchat_memories'' of
                                        None \<Rightarrow> die FolderCreateFailed (st2\<lparr>GDRIVE_SERVICE := Some svc\<rparr>)
                                      | Some fid \<Rightarrow>
                                          (Inr (),
                                           say (FolderCreated fid)
                                             (st2\<lparr>GDRIVE_SERVICE := Some svc,
                                                   GDRIVE_FOLDER_ID := Some fid\<rparr>)))) of
                            (Inl f, st3) \<Rightarrow> (Inl f, st3)
                          | (Inr u, st3) \<Rightarrow>
                              (case build_gdrive_existing_map env (drive st3) of
                                 None \<Rightarrow> die ListingFailed st3
                               | Some local_existing \<Rightarrow> (Inr (), st3)))))
      else (Inr (), st))"

text \<open>\<^verbatim>\<open>get_local_existing_set\<close>\<close>

definition get_local_existing_set :: "env \<Rightarrow> state \<Rightarrow> (fatal + string list) \<times> state" where
  "get_local_existing_set env st =
     (if local_list_ok env then (Inr (map fst (local_files st)), st)
      else die LocalListFailed st)"

text \<open>\<^verbatim>\<open>any(name.startswith(prefix) for name in existing_names)\<close>\<close>

definition exists_at :: "string list \<Rightarrow> memory \<Rightarrow> bool" where
  "exists_at existing_names rec = list_ex (\<lambda>name. startswith name (u_prefix rec)) existing_names"

text \<open>The pre-filter of the conflict mode \<^verbatim>\<open>new\<close>.\<close>

definition new_filter :: "env \<Rightarrow> memory list \<Rightarrow> state \<Rightarrow> (fatal + memory list) \<times> state" where
  "new_filter env records st =
     (if CONFLICT_MODE st = ''new''
      then (case (if DESTINATION st = ''gdrive''
                  then (if \<not> configured st then die NotConfigured st
                        else (Inr (map fst (GDRIVE_EXISTING st)), st))
                  else get_local_existing_set env st) of
              (Inl f, st1) \<Rightarrow> (Inl f, st1)
            | (Inr existing_names, st1) \<Rightarrow>
                (Inr (filter (\<lambda>rec. \<not> exists_at existing_names rec) records),
                 say (NewSkipping (length (filter (exists_at existing_names) records))
                        (length (filter (\<lambda>rec. \<not> exists_at existing_names rec) records))) st1))
      else (Inr records, st))"

type_synonym report = "(string \<times> info list option) list"

text \<open>
  The loop that fills \<^verbatim>\<open>all_saved\<close>: a record without URL is passed over, the others
  are processed one after the other.
\<close>

fun main_loop :: "env \<Rightarrow> memory list \<Rightarrow> report \<Rightarrow> state \<Rightarrow> (fatal + report) \<times> state" where
  "main_loop env [] all_saved st = (Inr all_saved, st)"
| "main_loop env (rec # recs) all_saved st =
     (case Media_Download_Url rec of
        None \<Rightarrow> main_loop env recs all_saved st
      | Some url \<Rightarrow>
          if url = [] then main_loop env recs all_saved st
          else (case download_and_process env rec
                       (say (Processing (Date rec) (Location rec) url) st) of
                  (Inl f, st1) \<Rightarrow> (Inl f, st1)
                | (Inr saved, st1) \<Rightarrow> main_loop env recs (AList.update url saved all_saved) st1))"

text \<open>
  The records the loop of \<^verbatim>\<open>extract_memories.py\<close> iterates:
  \<^verbatim>\<open>videos = list(filter(lambda x: x.get("Media Type") == "Video", records))\<close> and
  \<^verbatim>\<open>for rec in videos[137:]\<close>.
\<close>

definition iterated_records :: "memory list \<Rightarrow> memory list" where
  "iterated_records records = drop 137 (filter (\<lambda>x. Media_Type x = ''Video'') records)"

text \<open>\<^verbatim>\<open>sum(1 for v in all_saved.values() if v)\<close>\<close>

definition count_processed :: "report \<Rightarrow> nat" where
  "count_processed all_saved =
     length (filter (\<lambda>kv. case snd kv of None \<Rightarrow> False | Some l \<Rightarrow> l \<noteq> []) all_saved)"

text \<open>
  The script from the prompt to the report, over the records parsed from the export.
  \<open>Inr\<close> carries the report that was written; after an exit there is none.
\<close>

definition run :: "env \<Rightarrow> user_input \<Rightarrow> memory list \<Rightarrow> state \<Rightarrow> (fatal + report) \<times> state" where
  "run env inp records st =
     (case prompt_destination env inp st of
        (Inl f, st1) \<Rightarrow> (Inl f, st1)
      | (Inr u, st1) \<Rightarrow>
          (case new_filter env records st1 of
             (Inl f, st2) \<Rightarrow> (Inl f, st2)
           | (Inr records', st2) \<Rightarrow>
               (case main_loop env (iterated_records records') [] st2 of
                  (Inl f, st3) \<Rightarrow> (Inl f, st3)
                | (Inr all_saved, st3) \<Rightarrow>
                    (Inr all_saved, say (Downloaded (count_processed all_saved)) (emit ReportWrite st3)))))"

section \<open>Example worlds\<close>

text \<open>
  A small outside world in which every library call succeeds: the download answers with
  the given response, an archive holds the given members, an image decodes unless it is
  empty, the tool appends the overlay to the video, and the remote store gives a new
  object an id made from its name.
\<close>

definition ex_zip :: "(string \<times> bytes) list \<Rightarrow> zipfile" where
  "ex_zip members = \<lparr>namelist = map fst members, zread = map_of members\<rparr>"

definition ex_env :: "http_result \<Rightarrow> (string \<times> bytes) list \<Rightarrow> env" where
  "ex_env resp members =
     \<lparr>urlopen = (\<lambda>url. resp),
      urlparse_path = (\<lambda>url. []),
      is_zipfile = (\<lambda>b. take 2 b = [80, 75]),
      ZipFile = (\<lambda>b. Some (ex_zip members)),
      pil_available = True,
      Image_open = (\<lambda>b. if b = [] then None else Some b),
      alpha_composite = (\<lambda>a b. Some (a @ b)),
      save_jpeg = (\<lambda>i. Some i),
      save_png = (\<lambda>i. Some i),
      which_ffmpeg = Some ''/usr/bin/ffmpeg'',
      tmp_ok = True,
      subprocess_run = (\<lambda>ff cur ov. Completed 0 (cur @ ov)),
      disk_usage = (\<lambda>fs. Some 1000000),
      file_write_ok = (\<lambda>n b. True),
      local_list_ok = True,
      regex_coords = (\<lambda>s. None),
      piexif_available = True,
      exif_insert = (\<lambda>b m. Some b),
      mp4_tag = (\<lambda>b m. Some b),
      ads_write = (\<lambda>p. True),
      init_gdrive_service = (\<lambda>sa. Some Service),
      folder_get_ok = (\<lambda>f. True),
      create_gdrive_folder = (\<lambda>n. Some ''folder-1''),
      drive_list_ok = True,
      about_get = (\<lambda>d. Some (QInt 1000000, QInt 0)),
      drive_delete = (\<lambda>fid. True),
      drive_create = (\<lambda>n b d. Created (''id-'' @ str_nat (length d)) None)\<rparr>"

definition ex_zip_response :: http_result where
  "ex_zip_response = Response [80, 75, 3, 4] (Some ''application/zip'')"

definition ex_jpeg_response :: http_result where
  "ex_jpeg_response = Response [255, 216, 255] (Some ''image/jpeg'')"

text \<open>A record with a download URL, an empty location and the prefix the script derives.\<close>

definition ex_rec :: "string \<Rightarrow> memory" where
  "ex_rec media_type =
     \<lparr>Date = ''2021-05-01'', Media_Type = media_type, Location = [],
      Media_Download_Url = Some ''https://example.org/m1'',
      Download_Link = Some ''https://example.org/m1'',
      u_prefix = ''2021-05-01_''\<rparr>"

definition ex_gdrive_input :: "string \<Rightarrow> user_input" where
  "ex_gdrive_input cm = \<lparr>in_choice = ''gdrive'', in_sa = ''key.json'', in_folder = ''folder-0'', in_cm = cm\<rparr>"

definition ex_local_input :: user_input where
  "ex_local_input = \<lparr>in_choice = ''local'', in_sa = [], in_folder = [], in_cm = []\<rparr>"

text \<open>A remote folder that already holds one object named like the record's output.\<close>

definition ex_drive :: "(string \<times> string \<times> bytes) list" where
  "ex_drive = [(''id-old'', ''2021-05-01_.jpg'', [9, 9, 9])]"

text \<open>Two overlay members, the first of which does not decode.\<close>

definition ex_overlays :: "(string \<times> bytes) list" where
  "ex_overlays = [(''abc-overlay.png'', []), (''abc-overlay2.png'', [5])]"

text \<open>The same world with a tool that ends with return code 1.\<close>

definition ex_env_tool_fails :: env where
  "ex_env_tool_fails =
     (ex_env ex_zip_response ex_overlays)\<lparr>subprocess_run := (\<lambda>ff cur ov. Completed 1 [])\<rparr>"

text \<open>A world without the video tool on the path.\<close>

definition ex_env_no_tool :: "(string \<times> bytes) list \<Rightarrow> env" where
  "ex_env_no_tool members = (ex_env ex_zip_response members)\<lparr>which_ffmpeg := None\<rparr>"

text \<open>
  The state of a remote run in the given conflict mode, over an empty folder, after the
  prompt and one upload of the record's output.
\<close>

definition ex_state_after_upload :: "string \<Rightarrow> state" where
  "ex_state_after_upload cm =
     snd (save_or_upload_bytes (ex_env ex_jpeg_response []) [7] ''2021-05-01_.jpg''
            (ex_rec ''Image'') ''.jpg''
            (snd (prompt_destination (ex_env ex_jpeg_response []) (ex_gdrive_input cm)
                    (initial_state [] []))))"



section \<open>Properties of the classification\<close>














lemma collect_step_mains:
  "map_of (fst (collect_step n d)) b = (if classify n = Main b then Some n else map_of (fst d) b)"
  by (cases "classify n") (auto simp: collect_step_def update_conv')

lemma fold_collect_mains:
  "map_of (fst (fold collect_step names d)) b =
     (case filter (\<lambda>m. classify m = Main b) names of
        [] \<Rightarrow> map_of (fst d) b
      | m # ms \<Rightarrow> Some (last (m # ms)))"
proof (induction names arbitrary: d)
  case Nil
  show ?case by simp
next
  case (Cons n ns)
  show ?case
    by (simp add: Cons.IH collect_step_mains split: list.splits)
qed

lemma collect_step_distinct:
  "distinct (map fst (fst d)) \<Longrightarrow> distinct (map fst (fst (collect_step n d)))"
  by (cases "classify n") (auto simp: collect_step_def distinct_update)

lemma fold_collect_distinct:
  "distinct (map fst (fst d)) \<Longrightarrow> distinct (map fst (fst (fold collect_step names d)))"
  by (induction names arbitrary: d) (auto simp: collect_step_distinct)

text \<open>
  Claim C10. After the members of an archive have been collected, the dictionary of mains
  holds each base name once, and what it holds for a base name is the last member of the
  enumeration that was classified \<open>Main\<close> with that base. The groups are processed from
  this dictionary alone, so an earlier main member of the same base is never read,
  composited or committed; collecting prints nothing.
\<close>

theorem last_main_wins:
  "map_of (fst (collect_members names)) b =
     (case filter (\<lambda>m. classify m = Main b) names of
        [] \<Rightarrow> None
      | m # ms \<Rightarrow> Some (last (m # ms)))
   \<and> distinct (map fst (fst (collect_members names)))"
proof
  show "map_of (fst (collect_members names)) b =
     (case filter (\<lambda>m. classify m = Main b) names of
        [] \<Rightarrow> None
      | m # ms \<Rightarrow> Some (last (m # ms)))"
    unfolding collect_members_def
    by (simp add: fold_collect_mains split: list.splits)
next
  have "distinct (map fst (fst (([], []) :: mains_dict \<times> overlays_dict)))"
    by simp
  then show "distinct (map fst (fst (collect_members names)))"
    unfolding collect_members_def by (rule fold_collect_distinct)
qed

section \<open>Failures while compositing\<close>

lemma image_overlays_append:
  "image_overlays env z m img (xs @ ys) st =
     (case image_overlays env z m img xs st of
        (Inl f, s) \<Rightarrow> (Inl f, s)
      | (Inr img1, s) \<Rightarrow> image_overlays env z m img1 ys s)"
  by (induction xs arbitrary: img st) (auto simp: die_def split: option.splits)

lemma video_chain_append:
  "video_chain env z ff m cur (xs @ ys) st =
     (case video_chain env z ff m cur xs st of
        (Inl f, s) \<Rightarrow> (Inl f, s)
      | (Inr cur1, s) \<Rightarrow> video_chain env z ff m cur1 ys s)"
  by (induction xs arbitrary: cur st)
     (auto simp: die_def split: option.splits run_result.splits)

text \<open>
  Claim C5. Image main: when the overlays before \<open>om\<close> have been composited and \<open>om\<close>
  cannot be read, does not decode, or does not composite onto the current image, the
  group ends in \<^verbatim>\<open>sys.exit(1)\<close> (the value \<open>Inl\<close>, which every caller up to the run hands
  on), whatever overlays follow. Video main: an overlay that is read but does not decode
  is skipped with a message, and the chain goes on with the overlays after it from the
  same current input; a tool step that raises or returns a non-zero code ends in
  \<^verbatim>\<open>sys.exit(1)\<close>.
\<close>

theorem overlay_failures:
  "(image_overlays env z m img pre st = (Inr img1, st1)
      \<and> (zread z om = None
          \<or> (\<exists>ob. zread z om = Some ob
                \<and> (Image_open env ob = None
                    \<or> (\<exists>ov. Image_open env ob = Some ov \<and> alpha_composite env img1 ov = None))))
    \<longrightarrow> image_overlays env z m img (pre @ om # post) st = die (OverlayApplyFailed om m) st1)
   \<and> (zread z om = Some ob
        \<and> (Image_open env ob = None \<or> (\<exists>i. Image_open env ob = Some i \<and> save_png env i = None))
    \<longrightarrow> video_chain env z ff m cur (pre @ om # post) st =
          (case video_chain env z ff m cur pre st of
             (Inl f, s) \<Rightarrow> (Inl f, s)
           | (Inr cur1, s) \<Rightarrow> video_chain env z ff m cur1 post (say (OverlayDecodeSkipped om) s)))
   \<and> (video_chain env z ff m cur pre st = (Inr cur1, st1)
        \<and> zread z om = Some ob \<and> Image_open env ob = Some i \<and> save_png env i = Some png
        \<and> (subprocess_run env ff cur1 png = RunRaised
            \<or> (\<exists>rc out. subprocess_run env ff cur1 png = Completed rc out \<and> rc \<noteq> 0))
    \<longrightarrow> (\<exists>d. video_chain env z ff m cur (pre @ om # post) st = die d st1))"
proof (intro conjI impI)
  assume a: "image_overlays env z m img pre st = (Inr img1, st1)
      \<and> (zread z om = None
          \<or> (\<exists>ob. zread z om = Some ob
                \<and> (Image_open env ob = None
                    \<or> (\<exists>ov. Image_open env ob = Some ov \<and> alpha_composite env img1 ov = None))))"
  then have "image_overlays env z m img1 (om # post) st1 = die (OverlayApplyFailed om m) st1"
    by (auto split: option.splits)
  with a show "image_overlays env z m img (pre @ om # post) st = die (OverlayApplyFailed om m) st1"
    by (simp add: image_overlays_append)
next
  assume a: "zread z om = Some ob
        \<and> (Image_open env ob = None \<or> (\<exists>i. Image_open env ob = Some i \<and> save_png env i = None))"
  then have h: "video_chain env z ff m c (om # post) s =
      video_chain env z ff m c post (say (OverlayDecodeSkipped om) s)" for c s
    by auto
  show "video_chain env z ff m cur (pre @ om # post) st =
          (case video_chain env z ff m cur pre st of
             (Inl f, s) \<Rightarrow> (Inl f, s)
           | (Inr cur1, s) \<Rightarrow> video_chain env z ff m cur1 post (say (OverlayDecodeSkipped om) s))"
    by (simp only: video_chain_append h)
next
  assume a: "video_chain env z ff m cur pre st = (Inr cur1, st1)
        \<and> zread z om = Some ob \<and> Image_open env ob = Some i \<and> save_png env i = Some png
        \<and> (subprocess_run env ff cur1 png = RunRaised
            \<or> (\<exists>rc out. subprocess_run env ff cur1 png = Completed rc out \<and> rc \<noteq> 0))"
  then have "\<exists>d. video_chain env z ff m cur1 (om # post) st1 = die d st1"
    by auto
  with a show "\<exists>d. video_chain env z ff m cur (pre @ om # post) st = die d st1"
    by (simp add: video_chain_append)
qed

theorem overlay_failures_witness:
  "image_overlays (ex_env ex_zip_response ex_overlays) (ex_zip ex_overlays) ''abc-main.jpg'' [1]
       [''abc-overlay.png'', ''abc-overlay2.png''] (initial_state [] [])
     = die (OverlayApplyFailed ''abc-overlay.png'' ''abc-main.jpg'') (initial_state [] [])
   \<and> video_chain (ex_env ex_zip_response ex_overlays) (ex_zip ex_overlays) ''/usr/bin/ffmpeg''
       ''abc-main.mp4'' [1] [''abc-overlay.png'', ''abc-overlay2.png''] (initial_state [] [])
     = (Inr [1, 5], say (OverlayDecodeSkipped ''abc-overlay.png'') (initial_state [] []))
   \<and> (\<exists>d. video_chain ex_env_tool_fails (ex_zip ex_overlays) ''/usr/bin/ffmpeg''
       ''abc-main.mp4'' [1] [''abc-overlay2.png''] (initial_state [] [])
     = die d (initial_state [] []))"
proof -
  let ?E = "ex_env ex_zip_response ex_overlays"
  let ?Z = "ex_zip ex_overlays"
  let ?S = "initial_state [] []"
  have r1: "zread ?Z ''abc-overlay.png'' = Some []"
    by (simp add: ex_zip_def ex_overlays_def)
  have r2: "zread ?Z ''abc-overlay2.png'' = Some [5]"
    by (simp add: ex_zip_def ex_overlays_def)
  have d1: "Image_open ?E [] = None"
    by (simp add: ex_env_def)
  have i0: "image_overlays ?E ?Z ''abc-main.jpg'' [1] [] ?S = (Inr [1], ?S)"
    by simp
  note first = overlay_failures [where env = ?E and z = ?Z and m = "''abc-main.jpg''" and img = "[1]"
      and pre = "[]" and st = ?S and ?img1.0 = "[1]" and ?st1.0 = ?S and om = "''abc-overlay.png''"
      and post = "[''abc-overlay2.png'']", THEN conjunct1]
  from first i0 r1 d1
  have c1: "image_overlays ?E ?Z ''abc-main.jpg'' [1] [''abc-overlay.png'', ''abc-overlay2.png''] ?S
      = die (OverlayApplyFailed ''abc-overlay.png'' ''abc-main.jpg'') ?S"
    by simp
  have rest: "(case video_chain ?E ?Z ''/usr/bin/ffmpeg'' ''abc-main.mp4'' [1] [] ?S of
         (Inl f, s) \<Rightarrow> (Inl f, s)
       | (Inr cur1, s) \<Rightarrow>
           video_chain ?E ?Z ''/usr/bin/ffmpeg'' ''abc-main.mp4'' cur1 [''abc-overlay2.png'']
             (say (OverlayDecodeSkipped ''abc-overlay.png'') s))
      = (Inr [1, 5], say (OverlayDecodeSkipped ''abc-overlay.png'') ?S)"
    by (simp add: r2 ex_env_def)
  note second = overlay_failures [where env = ?E and z = ?Z and m = "''abc-main.mp4''" and cur = "[1]"
      and pre = "[]" and st = ?S and om = "''abc-overlay.png''" and ob = "[]"
      and ff = "''/usr/bin/ffmpeg''" and post = "[''abc-overlay2.png'']",
      THEN conjunct2, THEN conjunct1]
  from second r1 d1
  have "video_chain ?E ?Z ''/usr/bin/ffmpeg'' ''abc-main.mp4'' [1]
      ([] @ ''abc-overlay.png'' # [''abc-overlay2.png'']) ?S
      = (case video_chain ?E ?Z ''/usr/bin/ffmpeg'' ''abc-main.mp4'' [1] [] ?S of
         (Inl f, s) \<Rightarrow> (Inl f, s)
       | (Inr cur1, s) \<Rightarrow>
           video_chain ?E ?Z ''/usr/bin/ffmpeg'' ''abc-main.mp4'' cur1 [''abc-overlay2.png'']
             (say (OverlayDecodeSkipped ''abc-overlay.png'') s))"
    by blast
  with rest have c2: "video_chain ?E ?Z ''/usr/bin/ffmpeg'' ''abc-main.mp4'' [1]
      [''abc-overlay.png'', ''abc-overlay2.png''] ?S
      = (Inr [1, 5], say (OverlayDecodeSkipped ''abc-overlay.png'') ?S)"
    by (simp only: append_Nil)
  have d2: "Image_open ex_env_tool_fails [5] = Some [5]" "save_png ex_env_tool_fails [5] = Some [5]"
    "subprocess_run ex_env_tool_fails ''/usr/bin/ffmpeg'' [1] [5] = Completed 1 []"
    by (simp_all add: ex_env_tool_fails_def ex_env_def)
  have v0: "video_chain ex_env_tool_fails ?Z ''/usr/bin/ffmpeg'' ''abc-main.mp4'' [1] [] ?S = (Inr [1], ?S)"
    by simp
  have nz: "(1::int) \<noteq> 0" by simp
  note third = overlay_failures [where env = ex_env_tool_fails and z = ?Z and m = "''abc-main.mp4''"
      and cur = "[1]" and pre = "[]" and st = ?S and ?cur1.0 = "[1]" and ?st1.0 = ?S
      and om = "''abc-overlay2.png''" and ob = "[5]" and i = "[5]" and png = "[5]"
      and ff = "''/usr/bin/ffmpeg''" and post = "[]", THEN conjunct2, THEN conjunct2]
  from third v0 r2 d2 nz
  have "\<exists>d. video_chain ex_env_tool_fails ?Z ''/usr/bin/ffmpeg'' ''abc-main.mp4'' [1]
      ([] @ ''abc-overlay2.png'' # []) ?S = die d ?S"
    by blast
  then have c3: "\<exists>d. video_chain ex_env_tool_fails ?Z ''/usr/bin/ffmpeg'' ''abc-main.mp4'' [1]
      [''abc-overlay2.png''] ?S = die d ?S"
    by (simp only: append_Nil)
  from c1 c2 c3 show ?thesis by blast
qed

text \<open>
  An exit inside a group is the result of every caller: the group, the loop over the
  groups, the archive branch, the loop over the records and the run. The records and
  groups that follow are not processed, and no report is written.
\<close>

lemma process_image_fatal:
  "Image_open env main_bytes = Some img \<Longrightarrow>
   image_overlays env z main_member img overlay_members st = (Inl f, st') \<Longrightarrow>
   process_image env z rec filename main_member main_bytes overlay_members ext_inner st = (Inl f, st')"
  by (simp add: process_image_def)

lemma process_video_fatal:
  "which_ffmpeg env = Some ffmpeg_path \<Longrightarrow> ffmpeg_path \<noteq> [] \<Longrightarrow> tmp_ok env \<Longrightarrow>
   video_chain env z ffmpeg_path main_member main_bytes overlay_members st = (Inl f, st') \<Longrightarrow>
   process_video env z rec filename main_member main_bytes overlay_members ext_inner st = (Inl f, st')"
  by (simp add: process_video_def)

lemma process_mains_fatal:
  "zread z main_member = Some main_bytes \<Longrightarrow>
   (member_ext main_member \<in> {''.jpg'', ''.jpeg''}
      \<and> process_image env z rec (out_filename prefix count (member_ext main_member)) main_member
            main_bytes (get_list overlays base) (member_ext main_member) st = (Inl f, st'))
   \<or> (member_ext main_member = ''.mp4''
      \<and> process_video env z rec (out_filename prefix count (member_ext main_member)) main_member
            main_bytes (get_list overlays base) (member_ext main_member) st = (Inl f, st')) \<Longrightarrow>
   process_mains env z rec url prefix overlays ((base, main_member) # rest) count saved_files st
     = (Inl f, st')"
  by auto

lemma process_zip_fatal:
  "fst (collect_members (namelist z)) \<noteq> [] \<Longrightarrow> pil_available env \<Longrightarrow>
   process_mains env z rec url prefix (snd (collect_members (namelist z)))
     (fst (collect_members (namelist z))) 0 [] st = (Inl f, st') \<Longrightarrow>
   process_zip env z rec url prefix st = (Inl f, st')"
  by (simp add: process_zip_def)

lemma main_loop_fatal:
  "Media_Download_Url rec = Some url \<Longrightarrow> url \<noteq> [] \<Longrightarrow>
   download_and_process env rec (say (Processing (Date rec) (Location rec) url) st) = (Inl f, st') \<Longrightarrow>
   main_loop env (rec # recs) all_saved st = (Inl f, st')"
  by simp

lemma main_loop_append:
  "main_loop env (xs @ ys) all_saved st =
     (case main_loop env xs all_saved st of
        (Inl f, s) \<Rightarrow> (Inl f, s)
      | (Inr all_saved', s) \<Rightarrow> main_loop env ys all_saved' s)"
  by (induction xs arbitrary: all_saved st) (auto split: option.splits prod.splits sum.splits)

lemma run_fatal:
  "prompt_destination env inp st = (Inr (), st1) \<Longrightarrow>
   new_filter env records st1 = (Inr records', st2) \<Longrightarrow>
   main_loop env (iterated_records records') [] st2 = (Inl f, st3) \<Longrightarrow>
   run env inp records st = (Inl f, st3)"
  by (simp add: run_def)

section \<open>The missing video tool\<close>

text \<open>No exit of the commit, of the image path or of the overlay chain is the exit for the
  missing tool; that one is taken when a group with an MP4 main is reached.\<close>

lemma check_gdrive_space_fatal:
  "check_gdrive_space env n st = (Inl f, st') \<Longrightarrow> f \<noteq> SysExit FfmpegMissing"
  by (auto simp: check_gdrive_space_def die_def split: option.splits qval.splits if_splits)

lemma check_local_space_fatal:
  "check_local_space env n st = (Inl f, st') \<Longrightarrow> f \<noteq> SysExit FfmpegMissing"
  by (auto simp: check_local_space_def die_def split: option.splits if_splits)

lemma delete_existing_fatal:
  "delete_existing env fn ids st = (Inl f, st') \<Longrightarrow> f \<noteq> SysExit FfmpegMissing"
  by (induction ids arbitrary: st) (auto simp: die_def split: if_splits)

lemma gdrive_put_fatal:
  "gdrive_put env bts fn rec ext st = (Inl f, st') \<Longrightarrow> f \<noteq> SysExit FfmpegMissing"
  by (auto simp: gdrive_put_def upload_bytes_to_gdrive_def die_def Let_def
      split: create_result.splits)

lemma gdrive_commit_fatal:
  "gdrive_commit env bts fn rec ext st = (Inl f, st') \<Longrightarrow> f \<noteq> SysExit FfmpegMissing"
  by (auto simp: gdrive_commit_def Let_def
      split: if_splits prod.splits sum.splits dest: delete_existing_fatal gdrive_put_fatal)

lemma local_commit_fatal:
  "local_commit env bts fn rec st = (Inl f, st') \<Longrightarrow> False"
  by (auto simp: local_commit_def Let_def split: if_splits)

lemma save_or_upload_bytes_fatal:
  "save_or_upload_bytes env bts fn rec ext st = (Inl f, st') \<Longrightarrow> f \<noteq> SysExit FfmpegMissing"
  by (auto simp: save_or_upload_bytes_def Let_def die_def
      split: if_splits prod.splits sum.splits
      dest: check_gdrive_space_fatal check_local_space_fatal gdrive_commit_fatal local_commit_fatal)

lemma image_overlays_fatal:
  "image_overlays env z m img oms st = (Inl f, st') \<Longrightarrow> f \<noteq> SysExit FfmpegMissing"
  by (induction oms arbitrary: img st) (auto simp: die_def split: option.splits)

lemma process_image_fatal_kind:
  "process_image env z rec fn m mb oms ext st = (Inl f, st') \<Longrightarrow> f \<noteq> SysExit FfmpegMissing"
  by (auto simp: process_image_def die_def
      split: option.splits prod.splits sum.splits completion.splits
      dest: image_overlays_fatal save_or_upload_bytes_fatal)

lemma video_chain_fatal:
  "video_chain env z ff m cur oms st = (Inl f, st') \<Longrightarrow> f \<noteq> SysExit FfmpegMissing"
  by (induction oms arbitrary: cur st)
     (auto simp: die_def split: option.splits run_result.splits if_splits)

lemma process_video_missing:
  "process_video env z rec fn m mb oms ext st = (Inl (SysExit FfmpegMissing), st') \<Longrightarrow>
   which_ffmpeg env = None \<or> which_ffmpeg env = Some []"
  by (auto simp: process_video_def die_def
      split: option.splits prod.splits sum.splits completion.splits if_splits
      dest: video_chain_fatal save_or_upload_bytes_fatal)

lemma process_mains_missing:
  "process_mains env z rec url prefix overlays mains count saved st = (Inl (SysExit FfmpegMissing), st') \<Longrightarrow>
   (which_ffmpeg env = None \<or> which_ffmpeg env = Some [])
   \<and> (\<exists>base main_member. (base, main_member) \<in> set mains \<and> member_ext main_member = ''.mp4'')"
proof (induction mains arbitrary: count saved st)
  case Nil
  then show ?case by simp
next
  case (Cons p rest)
  obtain base main_member where p: "p = (base, main_member)" by (cases p)
  show ?case
  proof (cases "zread z main_member")
    case None
    with Cons.prems p have "process_mains env z rec url prefix overlays rest count saved
        (say (ReadMainFailed main_member url) st) = (Inl (SysExit FfmpegMissing), st')"
      by simp
    from Cons.IH [OF this] show ?thesis by auto
  next
    case (Some main_bytes)
    consider (img) "member_ext main_member \<in> set [''.jpg'', ''.jpeg'']"
      | (vid) "member_ext main_member \<notin> set [''.jpg'', ''.jpeg'']" "member_ext main_member = ''.mp4''"
      | (other) "member_ext main_member \<notin> set [''.jpg'', ''.jpeg'']" "member_ext main_member \<noteq> ''.mp4''"
      by blast
    then show ?thesis
    proof cases
      case img
      let ?r = "process_image env z rec (out_filename prefix count (member_ext main_member))
                       main_member main_bytes (get_list overlays base) (member_ext main_member) st"
      obtain a s1 where r: "?r = (a, s1)" by (cases ?r)
      show ?thesis
      proof (cases a)
        case (Inl f)
        with Cons.prems p Some img r have "f = SysExit FfmpegMissing" by simp
        with r Inl process_image_fatal_kind show ?thesis by blast
      next
        case (Inr res)
        with Cons.prems p Some img r have "process_mains env z rec url prefix overlays rest
            (Suc count) (saved @ [res]) s1 = (Inl (SysExit FfmpegMissing), st')"
          by simp
        from Cons.IH [OF this] show ?thesis by auto
      qed
    next
      case vid
      let ?r = "process_video env z rec (out_filename prefix count (member_ext main_member))
                       main_member main_bytes (get_list overlays base) (member_ext main_member) st"
      obtain a s1 where r: "?r = (a, s1)" by (cases ?r)
      show ?thesis
      proof (cases a)
        case (Inl f)
        with Cons.prems p Some vid r have "f = SysExit FfmpegMissing" by simp
        with r Inl have "which_ffmpeg env = None \<or> which_ffmpeg env = Some []"
          using process_video_missing by blast
        with vid p show ?thesis by auto
      next
        case (Inr res)
        with Cons.prems p Some vid r have "process_mains env z rec url prefix overlays rest
            (Suc count) (saved @ [res]) s1 = (Inl (SysExit FfmpegMissing), st')"
          by simp
        from Cons.IH [OF this] show ?thesis by auto
      qed
    next
      case other
      with Cons.prems p Some have "process_mains env z rec url prefix overlays rest count saved
          (say (UnsupportedMain main_member) st) = (Inl (SysExit FfmpegMissing), st')"
        by simp
      from Cons.IH [OF this] show ?thesis by auto
    qed
  qed
qed

lemma process_zip_missing:
  "process_zip env z rec url prefix st = (Inl (SysExit FfmpegMissing), st') \<Longrightarrow>
   (which_ffmpeg env = None \<or> which_ffmpeg env = Some [])
   \<and> (\<exists>base main_member. (base, main_member) \<in> set (fst (collect_members (namelist z)))
         \<and> member_ext main_member = ''.mp4'')"
  by (auto simp: process_zip_def Let_def die_def
      split: if_splits prod.splits sum.splits dest!: process_mains_missing)

lemma process_plain_fatal:
  "process_plain env data ext rec url prefix st = (Inl f, st') \<Longrightarrow> f \<noteq> SysExit FfmpegMissing"
  by (auto simp: process_plain_def Let_def
      split: prod.splits sum.splits completion.splits dest: save_or_upload_bytes_fatal)

lemma download_and_process_missing:
  assumes "download_and_process env rec st = (Inl (SysExit FfmpegMissing), st')"
  shows "(which_ffmpeg env = None \<or> which_ffmpeg env = Some [])
   \<and> (\<exists>url data ct z base main_member.
         py_or (Media_Download_Url rec) (Download_Link rec) = Some url
         \<and> urlopen env url = Response data ct \<and> ZipFile env data = Some z
         \<and> (base, main_member) \<in> set (fst (collect_members (namelist z)))
         \<and> member_ext main_member = ''.mp4'')"
proof -
  from assms obtain url where u: "py_or (Media_Download_Url rec) (Download_Link rec) = Some url"
    by (auto simp: download_and_process_def split: option.splits)
  with assms obtain data ct where r: "urlopen env url = Response data ct"
    by (auto simp: download_and_process_def Let_def say_def split: if_splits http_result.splits)
  let ?prefix = "if u_prefix rec \<noteq> [] then u_prefix rec else sanitize_prefix (Date rec) (Location rec)"
  from assms u r process_plain_fatal obtain z where z: "ZipFile env data = Some z"
    and pz: "process_zip env z rec url ?prefix st = (Inl (SysExit FfmpegMissing), st')"
    by (fastforce simp: download_and_process_def Let_def say_def split: if_splits option.splits)
  from process_zip_missing [OF pz] u r z show ?thesis by blast
qed

lemma collect_scenario:
  "collect_members [''abc-main.mp4'', ''abc-overlay.png'']
     = ([(''abc'', ''abc-main.mp4'')], [(''abc'', [''abc-overlay.png''])])"
  "collect_members [''abc-overlay.png'', ''abc-main.mp4'']
     = ([(''abc'', ''abc-main.mp4'')], [(''abc'', [''abc-overlay.png''])])"
  "collect_members [''abc-main.mp4''] = ([(''abc'', ''abc-main.mp4'')], [])"
  by code_simp+

lemma ext_mp4: "member_ext ''abc-main.mp4'' = ''.mp4''"
  by code_simp

lemma ex_zip_content_type: "get_extension_from_content_type (Some ''application/zip'') = Some ''.zip''"
  by code_simp

lemma process_video_no_tool:
  "which_ffmpeg env = None \<Longrightarrow>
   process_video env z rec fn m mb oms ext st = die FfmpegMissing st"
  by (simp add: process_video_def)

lemma process_zip_video_only_no_tool:
  assumes "fst (collect_members (namelist z)) = [(''abc'', ''abc-main.mp4'')]"
    and "zread z ''abc-main.mp4'' = Some mb" and "which_ffmpeg env = None"
  shows "process_zip env z rec url prefix st
     = die (if pil_available env then FfmpegMissing else PillowMissing) st"
  using assms by (simp add: process_zip_def ext_mp4 process_video_no_tool die_def)

lemma ex_no_tool_run_one:
  "download_and_process (ex_env_no_tool [(''abc-main.mp4'', [7])]) (ex_rec ''Video'') (initial_state [] [])
     = die FfmpegMissing (initial_state [] [])"
proof -
  let ?E = "ex_env_no_tool [(''abc-main.mp4'', [7])]"
  let ?Z = "ex_zip [(''abc-main.mp4'', [7])]"
  have "process_zip ?E ?Z (ex_rec ''Video'') ''https://example.org/m1'' ''2021-05-01_'' (initial_state [] [])
      = die (if pil_available ?E then FfmpegMissing else PillowMissing) (initial_state [] [])"
    by (rule process_zip_video_only_no_tool)
       (simp_all add: ex_zip_def collect_scenario ex_env_no_tool_def ex_env_def)
  then show ?thesis
    by (simp add: download_and_process_def py_or_def truthy_def ex_rec_def ex_env_no_tool_def
        ex_env_def ex_zip_response_def ex_zip_content_type)
qed

text \<open>
  Claim C3, as the code has it. The exit for the missing tool is only taken when the
  tool is not on the path and the record's payload is an archive whose collected mains
  hold an MP4 member; whether that group has any overlay plays no part. In the scenario
  of the claim (an archive of \<^verbatim>\<open>abc-main.mp4\<close> and \<^verbatim>\<open>abc-overlay.png\<close>, in either order,
  the main member readable, no tool) the record ends in an exit, and the state is the one
  before the record plus the message: nothing was committed.
\<close>

theorem missing_tool_fatal_for_video_main:
  "(fst (download_and_process env rec st) = Inl (SysExit FfmpegMissing)
    \<longrightarrow> (which_ffmpeg env = None \<or> which_ffmpeg env = Some [])
        \<and> (\<exists>url data ct z base main_member.
              py_or (Media_Download_Url rec) (Download_Link rec) = Some url
              \<and> urlopen env url = Response data ct \<and> ZipFile env data = Some z
              \<and> (base, main_member) \<in> set (fst (collect_members (namelist z)))
              \<and> member_ext main_member = ''.mp4''))
   \<and> (py_or (Media_Download_Url rec) (Download_Link rec) = Some url \<and> url \<noteq> []
       \<and> urlopen env url = Response data ct
       \<and> (get_extension_from_content_type ct = Some ''.zip'' \<or> endswith (lower url) ''.zip''
           \<or> is_zipfile env data)
       \<and> ZipFile env data = Some z
       \<and> (namelist z = [''abc-main.mp4'', ''abc-overlay.png'']
           \<or> namelist z = [''abc-overlay.png'', ''abc-main.mp4''])
       \<and> zread z ''abc-main.mp4'' = Some mb
       \<and> which_ffmpeg env = None
    \<longrightarrow> download_and_process env rec st
          = die (if pil_available env then FfmpegMissing else PillowMissing) st)"
proof (intro conjI impI)
  assume "fst (download_and_process env rec st) = Inl (SysExit FfmpegMissing)"
  then have "download_and_process env rec st
      = (Inl (SysExit FfmpegMissing), snd (download_and_process env rec st))"
    by (metis prod.collapse)
  from download_and_process_missing [OF this]
  show "which_ffmpeg env = None \<or> which_ffmpeg env = Some []"
    and "\<exists>url data ct z base main_member.
              py_or (Media_Download_Url rec) (Download_Link rec) = Some url
              \<and> urlopen env url = Response data ct \<and> ZipFile env data = Some z
              \<and> (base, main_member) \<in> set (fst (collect_members (namelist z)))
              \<and> member_ext main_member = ''.mp4''"
    by blast+
next
  assume a: "py_or (Media_Download_Url rec) (Download_Link rec) = Some url \<and> url \<noteq> []
       \<and> urlopen env url = Response data ct
       \<and> (get_extension_from_content_type ct = Some ''.zip'' \<or> endswith (lower url) ''.zip''
           \<or> is_zipfile env data)
       \<and> ZipFile env data = Some z
       \<and> (namelist z = [''abc-main.mp4'', ''abc-overlay.png'']
           \<or> namelist z = [''abc-overlay.png'', ''abc-main.mp4''])
       \<and> zread z ''abc-main.mp4'' = Some mb
       \<and> which_ffmpeg env = None"
  then have m: "fst (collect_members (namelist z)) = [(''abc'', ''abc-main.mp4'')]"
    by (auto simp: collect_scenario)
  have "process_zip env z rec url p st
      = die (if pil_available env then FfmpegMissing else PillowMissing) st" for p
    using m a by (simp add: process_zip_video_only_no_tool)
  with a show "download_and_process env rec st
          = die (if pil_available env then FfmpegMissing else PillowMissing) st"
    by (auto simp: download_and_process_def)
qed

theorem missing_tool_fatal_for_video_main_witness:
  "fst (download_and_process (ex_env_no_tool [(''abc-main.mp4'', [7])]) (ex_rec ''Video'')
          (initial_state [] [])) = Inl (SysExit FfmpegMissing)
   \<and> which_ffmpeg (ex_env_no_tool [(''abc-main.mp4'', [7])]) = None
   \<and> namelist (ex_zip [(''abc-main.mp4'', [7]), (''abc-overlay.png'', [8])])
       = [''abc-main.mp4'', ''abc-overlay.png'']
   \<and> download_and_process (ex_env_no_tool [(''abc-main.mp4'', [7]), (''abc-overlay.png'', [8])])
        (ex_rec ''Video'') (initial_state [] [])
       = die FfmpegMissing (initial_state [] [])"
proof -
  let ?E1 = "ex_env_no_tool [(''abc-main.mp4'', [7])]"
  let ?M = "[(''abc-main.mp4'', [7]), (''abc-overlay.png'', [8::nat])]"
  let ?E2 = "ex_env_no_tool ?M"
  let ?S = "initial_state [] []"
  have h1: "fst (download_and_process ?E1 (ex_rec ''Video'') ?S) = Inl (SysExit FfmpegMissing)"
    by (simp add: ex_no_tool_run_one die_def)
  from h1 missing_tool_fatal_for_video_main [where env = ?E1 and rec = "ex_rec ''Video''" and st = ?S,
      THEN conjunct1]
  have c1: "which_ffmpeg ?E1 = None \<or> which_ffmpeg ?E1 = Some []"
    by blast
  have n1: "which_ffmpeg ?E1 \<noteq> Some []"
    by (simp add: ex_env_no_tool_def)
  have h2: "py_or (Media_Download_Url (ex_rec ''Video'')) (Download_Link (ex_rec ''Video''))
        = Some ''https://example.org/m1''"
      "''https://example.org/m1'' \<noteq> []"
      "urlopen ?E2 ''https://example.org/m1'' = Response [80, 75, 3, 4] (Some ''application/zip'')"
      "get_extension_from_content_type (Some ''application/zip'') = Some ''.zip''"
      "ZipFile ?E2 [80, 75, 3, 4] = Some (ex_zip ?M)"
      "namelist (ex_zip ?M) = [''abc-main.mp4'', ''abc-overlay.png'']"
      "zread (ex_zip ?M) ''abc-main.mp4'' = Some [7]"
      "which_ffmpeg ?E2 = None"
      "pil_available ?E2"
    by (simp_all add: py_or_def truthy_def ex_rec_def ex_env_no_tool_def ex_env_def
        ex_zip_response_def ex_zip_content_type ex_zip_def)
  from h2 missing_tool_fatal_for_video_main [where env = ?E2 and rec = "ex_rec ''Video''" and st = ?S
      and url = "''https://example.org/m1''" and data = "[80, 75, 3, 4]"
      and ct = "Some ''application/zip''" and z = "ex_zip ?M" and mb = "[7]", THEN conjunct2]
  have c2: "download_and_process ?E2 (ex_rec ''Video'') ?S = die FfmpegMissing ?S"
    by simp
  from h1 c1 n1 h2(6) c2 show ?thesis by simp
qed

text \<open>
  Claim C3 as stated fails when the archive holds a video main and no overlay at all:
  nothing is to be composited, and the missing tool still ends the run.
\<close>

theorem missing_tool_fatal_without_overlay:
  "fst (download_and_process (ex_env_no_tool [(''abc-main.mp4'', [7])]) (ex_rec ''Video'')
          (initial_state [] [])) = Inl (SysExit FfmpegMissing)
   \<and> ZipFile (ex_env_no_tool [(''abc-main.mp4'', [7])]) [80, 75, 3, 4]
       = Some (ex_zip [(''abc-main.mp4'', [7])])
   \<and> collect_members (namelist (ex_zip [(''abc-main.mp4'', [7])]))
       = ([(''abc'', ''abc-main.mp4'')], [])"
proof -
  have a: "fst (download_and_process (ex_env_no_tool [(''abc-main.mp4'', [7])]) (ex_rec ''Video'')
          (initial_state [] [])) = Inl (SysExit FfmpegMissing)"
    by (simp add: ex_no_tool_run_one die_def)
  have b: "ZipFile (ex_env_no_tool [(''abc-main.mp4'', [7])]) [80, 75, 3, 4]
       = Some (ex_zip [(''abc-main.mp4'', [7])])"
    by (simp add: ex_env_no_tool_def ex_env_def)
  have c: "collect_members (namelist (ex_zip [(''abc-main.mp4'', [7])]))
       = ([(''abc'', ''abc-main.mp4'')], [])"
    by (simp add: ex_zip_def collect_scenario)
  from a b c show ?thesis by blast
qed

section \<open>Groups without a main member\<close>

lemma process_mains_overlays_cong:
  "(\<And>b. b \<in> fst ` set mains \<Longrightarrow> get_list ov1 b = get_list ov2 b) \<Longrightarrow>
   process_mains env z rec url prefix ov1 mains count saved st
     = process_mains env z rec url prefix ov2 mains count saved st"
proof (induction mains arbitrary: count saved st)
  case Nil
  show ?case by simp
next
  case (Cons p rest)
  obtain base main_member where p: "p = (base, main_member)" by (cases p)
  have g: "get_list ov1 base = get_list ov2 base"
    using Cons.prems [of base] p by simp
  have ih: "process_mains env z rec url prefix ov1 rest c s t
      = process_mains env z rec url prefix ov2 rest c s t" for c s t
    using Cons.IH [of c s t] Cons.prems by simp
  show ?case
    unfolding p by (simp add: g ih split: option.splits prod.splits sum.splits)
qed

lemma get_list_filter_keys:
  "b \<in> K \<Longrightarrow> get_list (filter (\<lambda>kv. fst kv \<in> K) ov) b = get_list ov b"
  by (induction ov) (auto simp: get_list_def)

lemma collect_orphan:
  "collect_members [''abc-main.jpg'', ''xyz-overlay.png'']
     = ([(''abc'', ''abc-main.jpg'')], [(''xyz'', [''xyz-overlay.png''])])"
  "collect_members [''xyz-overlay.png''] = ([], [(''xyz'', [''xyz-overlay.png''])])"
  by code_simp+

lemma ext_jpg:
  "member_ext ''abc-main.jpg'' = ''.jpg''"
  "lower (path_suffix (path_name ''2021-05-01_.jpg'')) = ''.jpg''"
  by code_simp+

text \<open>
  Claim C8, as the code has it. The loop over the groups runs over the dictionary of
  mains only: the overlay entries whose base has no main can be removed without changing
  the result or the state of the loop, so such a group yields no output, no message and
  no exit. A message is printed only when the archive has no main at all; the record
  then returns an empty list, and the state is the one before plus that message.
\<close>

theorem group_without_main_is_silent:
  "(py_or (Media_Download_Url rec) (Download_Link rec) = Some url \<and> url \<noteq> []
      \<and> urlopen env url = Response data ct
      \<and> (get_extension_from_content_type ct = Some ''.zip'' \<or> endswith (lower url) ''.zip''
          \<or> is_zipfile env data)
      \<and> ZipFile env data = Some z
      \<and> fst (collect_members (namelist z)) = []
    \<longrightarrow> download_and_process env rec st = (Inr (Some []), say (NoMain url) st))
   \<and> process_mains env z rec url prefix overlays mains count saved st
       = process_mains env z rec url prefix
           (filter (\<lambda>kv. fst kv \<in> fst ` set mains) overlays) mains count saved st"
proof (intro conjI impI)
  assume "py_or (Media_Download_Url rec) (Download_Link rec) = Some url \<and> url \<noteq> []
      \<and> urlopen env url = Response data ct
      \<and> (get_extension_from_content_type ct = Some ''.zip'' \<or> endswith (lower url) ''.zip''
          \<or> is_zipfile env data)
      \<and> ZipFile env data = Some z
      \<and> fst (collect_members (namelist z)) = []"
  then show "download_and_process env rec st = (Inr (Some []), say (NoMain url) st)"
    by (auto simp: download_and_process_def process_zip_def)
next
  show "process_mains env z rec url prefix overlays mains count saved st
       = process_mains env z rec url prefix
           (filter (\<lambda>kv. fst kv \<in> fst ` set mains) overlays) mains count saved st"
    by (rule process_mains_overlays_cong) (simp add: get_list_filter_keys)
qed

theorem group_without_main_is_silent_witness:
  "fst (collect_members (namelist (ex_zip [(''xyz-overlay.png'', [8])]))) = []
   \<and> download_and_process (ex_env ex_zip_response [(''xyz-overlay.png'', [8])]) (ex_rec ''Image'')
        (initial_state [] [])
      = (Inr (Some []), say (NoMain ''https://example.org/m1'') (initial_state [] []))"
proof -
  let ?M = "[(''xyz-overlay.png'', [8::nat])]"
  let ?E = "ex_env ex_zip_response ?M"
  have h: "py_or (Media_Download_Url (ex_rec ''Image'')) (Download_Link (ex_rec ''Image''))
        = Some ''https://example.org/m1''"
      "''https://example.org/m1'' \<noteq> []"
      "urlopen ?E ''https://example.org/m1'' = Response [80, 75, 3, 4] (Some ''application/zip'')"
      "get_extension_from_content_type (Some ''application/zip'') = Some ''.zip''"
      "ZipFile ?E [80, 75, 3, 4] = Some (ex_zip ?M)"
      "fst (collect_members (namelist (ex_zip ?M))) = []"
    by (simp_all add: py_or_def truthy_def ex_rec_def ex_env_def
        ex_zip_response_def ex_zip_content_type ex_zip_def collect_orphan)
  from h group_without_main_is_silent [where env = ?E and rec = "ex_rec ''Image''"
      and url = "''https://example.org/m1''" and data = "[80, 75, 3, 4]"
      and ct = "Some ''application/zip''" and z = "ex_zip ?M" and st = "initial_state [] []",
      THEN conjunct1]
  have "download_and_process ?E (ex_rec ''Image'') (initial_state [] [])
      = (Inr (Some []), say (NoMain ''https://example.org/m1'') (initial_state [] []))"
    by blast
  with h(6) show ?thesis by blast
qed

lemma ex_orphan_run:
  "download_and_process
      (ex_env ex_zip_response [(''abc-main.jpg'', [7]), (''xyz-overlay.png'', [8])])
      (ex_rec ''Image'') (initial_state [] [])
    = (Inr (Some [Saved ''2021-05-01_.jpg'']),
       (initial_state [] [(''2021-05-01_.jpg'', [7])])
         \<lparr>trace := [Commit ''2021-05-01_.jpg'', FileWrite ''2021-05-01_.jpg'' [7]]\<rparr>)"
  by (simp add: download_and_process_def py_or_def truthy_def ex_rec_def ex_env_def
      ex_zip_response_def ex_zip_content_type process_zip_def ex_zip_def collect_orphan ext_jpg
      process_image_def get_list_def out_filename_def save_or_upload_bytes_def
      check_local_space_def local_commit_def write_file_metadata_def record_metadata_def
      parse_location_def initial_state_def emit_def Let_def)

text \<open>
  Claim C8 as stated fails on an archive with one complete group and one group of
  overlays only: the record is processed and committed, and the trace holds no message
  at all, so none for the group without main.
\<close>

theorem orphan_overlay_group_no_diagnostic:
  "collect_members [''abc-main.jpg'', ''xyz-overlay.png'']
     = ([(''abc'', ''abc-main.jpg'')], [(''xyz'', [''xyz-overlay.png''])])
   \<and> namelist (ex_zip [(''abc-main.jpg'', [7]), (''xyz-overlay.png'', [8])])
     = [''abc-main.jpg'', ''xyz-overlay.png'']
   \<and> trace (snd (download_and_process
        (ex_env ex_zip_response [(''abc-main.jpg'', [7]), (''xyz-overlay.png'', [8])])
        (ex_rec ''Image'') (initial_state [] [])))
     = [Commit ''2021-05-01_.jpg'', FileWrite ''2021-05-01_.jpg'' [7]]"
proof -
  have "trace (snd (download_and_process
        (ex_env ex_zip_response [(''abc-main.jpg'', [7]), (''xyz-overlay.png'', [8])])
        (ex_rec ''Image'') (initial_state [] [])))
     = [Commit ''2021-05-01_.jpg'', FileWrite ''2021-05-01_.jpg'' [7]]"
    by (simp add: ex_orphan_run)
  moreover have "namelist (ex_zip [(''abc-main.jpg'', [7]), (''xyz-overlay.png'', [8])])
     = [''abc-main.jpg'', ''xyz-overlay.png'']"
    by (simp add: ex_zip_def)
  ultimately show ?thesis
    using collect_orphan(1) by blast
qed

section \<open>Guards, metadata and the commit result\<close>

lemma check_local_space_emit:
  "fst (check_local_space env n (emit e st)) = fst (check_local_space env n st)"
  by (simp add: check_local_space_def emit_def die_def split: option.splits)

lemma check_local_space_ok:
  "fst (check_local_space env n st) = Inr () \<Longrightarrow> check_local_space env n st = (Inr (), st)"
  by (auto simp: check_local_space_def die_def split: option.splits if_splits)

lemma check_gdrive_space_emit:
  "fst (check_gdrive_space env n (emit e st)) = fst (check_gdrive_space env n st)"
  by (simp add: check_gdrive_space_def emit_def die_def split: option.splits qval.splits)

lemma check_gdrive_space_ok:
  "fst (check_gdrive_space env n st) = Inr () \<Longrightarrow> check_gdrive_space env n st = (Inr (), st)"
  by (auto simp: check_gdrive_space_def die_def split: option.splits qval.splits if_splits)

lemma check_gdrive_space_cases:
  "check_gdrive_space env n st = (Inr (), st) \<or> (\<exists>d. check_gdrive_space env n st = die d st)"
  by (auto simp: check_gdrive_space_def split: option.splits qval.splits)

lemma local_save:
  assumes "DESTINATION st \<noteq> ''gdrive''" and "fst (check_local_space env (length bts) st) = Inr ()"
  shows "save_or_upload_bytes env bts fn rec ext st = local_commit env bts fn rec (emit (Commit fn) st)"
proof -
  have "fst (check_local_space env (length bts) (emit (Commit fn) st)) = Inr ()"
    using assms(2) by (simp add: check_local_space_emit)
  then have "check_local_space env (length bts) (emit (Commit fn) st) = (Inr (), emit (Commit fn) st)"
    by (rule check_local_space_ok)
  with assms(1) show ?thesis
    by (simp add: save_or_upload_bytes_def emit_def)
qed

lemma write_file_metadata_results:
  "(write_file_metadata env path meta st = (False, st)
      \<and> lower (path_suffix (path_name path)) \<in> {''.jpg'', ''.jpeg''} \<and> piexif_available env
      \<and> (m_Latitude meta = None \<or> m_Longitude meta = None))
   \<or> (\<exists>b. write_file_metadata env path meta st
          = (True, st\<lparr>local_files := AList.update path b (local_files st)\<rparr>))
   \<or> write_file_metadata env path meta st = (True, st)
   \<or> (write_file_metadata env path meta st = (False, say (MetaFailed path) st)
       \<and> \<not> ads_write env path)"
proof -
  let ?suffix = "lower (path_suffix (path_name path))"
  let ?content = "case map_of (local_files st) path of None \<Rightarrow> [] | Some b \<Rightarrow> b"
  let ?jpeg = "?suffix \<in> set [''.jpg'', ''.jpeg''] \<and> piexif_available env \<and> pil_available env"
  show ?thesis
  proof (cases "?jpeg \<and> (m_Latitude meta = None \<or> m_Longitude meta = None)")
    case True
    then have "write_file_metadata env path meta st = (False, st)"
      by (auto simp: write_file_metadata_def Let_def)
    with True show ?thesis by simp
  next
    case nc: False
    show ?thesis
    proof (cases "if ?jpeg then exif_insert env ?content meta else None")
      case (Some b)
      with nc have "write_file_metadata env path meta st
          = (True, st\<lparr>local_files := AList.update path b (local_files st)\<rparr>)"
        by (auto simp: write_file_metadata_def Let_def)
      then show ?thesis by blast
    next
      case ex: None
      show ?thesis
      proof (cases "if ?suffix = ''.mp4'' then mp4_tag env ?content meta else None")
        case (Some b)
        with nc ex have "write_file_metadata env path meta st
            = (True, st\<lparr>local_files := AList.update path b (local_files st)\<rparr>)"
          by (auto simp: write_file_metadata_def Let_def)
        then show ?thesis by blast
      next
        case mp: None
        show ?thesis
        proof (cases "ads_write env path")
          case True
          with nc ex mp have "write_file_metadata env path meta st = (True, st)"
            by (auto simp: write_file_metadata_def Let_def)
          then show ?thesis by blast
        next
          case False
          with nc ex mp have "write_file_metadata env path meta st
              = (False, say (MetaFailed path) st)"
            by (auto simp: write_file_metadata_def Let_def)
          with False show ?thesis by blast
        qed
      qed
    qed
  qed
qed



section \<open>The conflict mode skip\<close>

lemma gdrive_commit_skip:
  "CONFLICT_MODE st = ''skip'' \<Longrightarrow> get_list (GDRIVE_EXISTING st) fn \<noteq> [] \<Longrightarrow>
   gdrive_commit env bts fn rec ext st
     = (Inr (Return (Skipped (get_list (GDRIVE_EXISTING st) fn))), st)"
  by (simp add: gdrive_commit_def)

lemma local_commit_writes:
  "FileWrite fn bts \<in> set (trace (snd (local_commit env bts fn rec st)))"
proof (cases "file_write_ok env fn bts")
  case False
  then show ?thesis by (simp add: local_commit_def Let_def emit_def)
next
  case True
  let ?st1 = "(emit (FileWrite fn bts) st)
      \<lparr>local_files := AList.update fn bts (local_files (emit (FileWrite fn bts) st))\<rparr>"
  have t: "FileWrite fn bts \<in> set (trace ?st1)" by (simp add: emit_def)
  from write_file_metadata_results [of env fn "record_metadata env rec" ?st1]
  have "FileWrite fn bts \<in> set (trace (snd (write_file_metadata env fn (record_metadata env rec) ?st1)))"
    using t by (auto simp: say_def emit_def)
  with True show ?thesis by (simp add: local_commit_def Let_def)
qed

text \<open>
  Claim C2, as the code has it. Remote destination, mode \<^verbatim>\<open>skip\<close>, and a name for which
  the in-memory dictionary records at least one id: the call ends either with the skip
  outcome that carries the recorded ids, or with an exit of the configuration check or
  the quota guard that run first; in both cases the state is the one before plus the
  call itself (and the exit message), so no upload or delete was invoked and the store
  is unchanged. When the checks pass the outcome is the skip. The local destination has
  no conflict handling: once the space guard has passed, the write is invoked for every
  name and every mode.
\<close>

theorem skip_only_for_indexed_remote_name:
  "(DESTINATION st = ''gdrive'' \<and> CONFLICT_MODE st = ''skip''
      \<and> get_list (GDRIVE_EXISTING st) fn \<noteq> []
    \<longrightarrow> (save_or_upload_bytes env bts fn rec ext st
           = (Inr (Return (Skipped (get_list (GDRIVE_EXISTING st) fn))), emit (Commit fn) st)
         \<or> (\<exists>d. save_or_upload_bytes env bts fn rec ext st = die d (emit (Commit fn) st)))
        \<and> (configured st \<and> fst (check_gdrive_space env (length bts) st) = Inr ()
           \<longrightarrow> save_or_upload_bytes env bts fn rec ext st
               = (Inr (Return (Skipped (get_list (GDRIVE_EXISTING st) fn))), emit (Commit fn) st)))
   \<and> (DESTINATION st \<noteq> ''gdrive'' \<and> fst (check_local_space env (length bts) st) = Inr ()
    \<longrightarrow> FileWrite fn bts \<in> set (trace (snd (save_or_upload_bytes env bts fn rec ext st))))"
proof (intro conjI impI)
  assume a: "DESTINATION st = ''gdrive'' \<and> CONFLICT_MODE st = ''skip''
      \<and> get_list (GDRIVE_EXISTING st) fn \<noteq> []"
  let ?st = "emit (Commit fn) st"
  have g: "gdrive_commit env bts fn rec ext ?st
      = (Inr (Return (Skipped (get_list (GDRIVE_EXISTING st) fn))), ?st)"
    using a gdrive_commit_skip [of ?st fn env bts rec ext] by (simp add: emit_def)
  have d: "DESTINATION ?st = ''gdrive''" using a by (simp add: emit_def)
  show "save_or_upload_bytes env bts fn rec ext st
           = (Inr (Return (Skipped (get_list (GDRIVE_EXISTING st) fn))), ?st)
         \<or> (\<exists>d. save_or_upload_bytes env bts fn rec ext st = die d ?st)"
  proof (cases "configured ?st")
    case False
    with d have "save_or_upload_bytes env bts fn rec ext st = die NotConfigured ?st"
      by (simp add: save_or_upload_bytes_def)
    then show ?thesis by blast
  next
    case True
    from check_gdrive_space_cases [of env "length bts" ?st] show ?thesis
    proof
      assume "check_gdrive_space env (length bts) ?st = (Inr (), ?st)"
      with d True g have "save_or_upload_bytes env bts fn rec ext st
           = (Inr (Return (Skipped (get_list (GDRIVE_EXISTING st) fn))), ?st)"
        by (simp add: save_or_upload_bytes_def)
      then show ?thesis by blast
    next
      assume "\<exists>x. check_gdrive_space env (length bts) ?st = die x ?st"
      then obtain x where "check_gdrive_space env (length bts) ?st = die x ?st" by blast
      with d True have "save_or_upload_bytes env bts fn rec ext st = die x ?st"
        by (simp add: save_or_upload_bytes_def die_def)
      then show ?thesis by blast
    qed
  qed
  show "save_or_upload_bytes env bts fn rec ext st
               = (Inr (Return (Skipped (get_list (GDRIVE_EXISTING st) fn))), ?st)"
    if c: "configured st \<and> fst (check_gdrive_space env (length bts) st) = Inr ()"
  proof -
    from c have "configured ?st" by (simp add: configured_def emit_def)
    moreover from c have "check_gdrive_space env (length bts) ?st = (Inr (), ?st)"
      by (simp add: check_gdrive_space_ok check_gdrive_space_emit)
    ultimately show ?thesis
      using d g by (simp add: save_or_upload_bytes_def)
  qed
next
  assume "DESTINATION st \<noteq> ''gdrive'' \<and> fst (check_local_space env (length bts) st) = Inr ()"
  then show "FileWrite fn bts \<in> set (trace (snd (save_or_upload_bytes env bts fn rec ext st)))"
    by (simp add: local_save local_commit_writes)
qed

lemma ex_input_words:
  "lower (strip ''gdrive'') = ''gdrive''"
  "lower (strip ''skip'') = ''skip''"
  "lower (strip ''overwrite'') = ''overwrite''"
  "lower (strip ''new'') = ''new''"
  "lower (strip ''local'') = ''local''"
  "strip ''key.json'' = ''key.json''"
  "strip ''folder-0'' = ''folder-0''"
  by code_simp+

lemma ex_prompt:
  "cm \<in> {''skip'', ''overwrite'', ''new''} \<Longrightarrow>
   prompt_destination (ex_env resp members) (ex_gdrive_input cm) (initial_state d l)
     = (Inr (), \<lparr>DESTINATION = ''gdrive'', GDRIVE_SERVICE = Some Service,
          GDRIVE_FOLDER_ID = Some ''folder-0'', CONFLICT_MODE = cm, GDRIVE_EXISTING = [],
          drive = d, local_files = l, trace = [Print GDriveSelected]\<rparr>)"
  by (auto simp: prompt_destination_def ex_gdrive_input_def ex_input_words ex_env_def
      initial_state_def say_def emit_def build_gdrive_existing_map_def Let_def)


lemma ex_upload_unindexed:
  assumes "DESTINATION st = ''gdrive''" "GDRIVE_SERVICE st = Some Service"
    "GDRIVE_FOLDER_ID st = Some ''folder-0''" "GDRIVE_EXISTING st = []"
    "length bts \<le> 1000000"
  shows "save_or_upload_bytes (ex_env resp members) bts fn (ex_rec mt) ext st
     = (Inr (Return (Uploaded (''id-'' @ str_nat (length (drive st))) None)),
        st\<lparr>GDRIVE_EXISTING := [(fn, [''id-'' @ str_nat (length (drive st))])],
            drive := drive st @ [(''id-'' @ str_nat (length (drive st)), fn, bts)],
            trace := trace st @ [Commit fn,
              DriveCreate fn bts (mime_of ext) (record_metadata (ex_env resp members) (ex_rec mt))]\<rparr>)"
  using assms
  by (simp add: save_or_upload_bytes_def emit_def configured_def truthy_def
      check_gdrive_space_def ex_env_def gdrive_commit_def get_list_def gdrive_put_def
      upload_bytes_to_gdrive_def Let_def)

lemma str_nat_digits: "str_nat 0 = ''0''" "str_nat 1 = ''1''"
  by (simp_all add: str_nat.simps digit_char_def)

lemma ex_after_upload:
  "cm \<in> {''skip'', ''overwrite'', ''new''} \<Longrightarrow>
   ex_state_after_upload cm
     = \<lparr>DESTINATION = ''gdrive'', GDRIVE_SERVICE = Some Service,
        GDRIVE_FOLDER_ID = Some ''folder-0'', CONFLICT_MODE = cm,
        GDRIVE_EXISTING = [(''2021-05-01_.jpg'', [''id-0''])],
        drive = [(''id-0'', ''2021-05-01_.jpg'', [7])], local_files = [],
        trace = [Print GDriveSelected, Commit ''2021-05-01_.jpg'',
                 DriveCreate ''2021-05-01_.jpg'' [7] ''image/jpeg''
                   (record_metadata (ex_env ex_jpeg_response []) (ex_rec ''Image''))]\<rparr>"
  by (simp add: ex_state_after_upload_def ex_prompt ex_upload_unindexed str_nat_digits mime_of_def)

theorem skip_only_for_indexed_remote_name_witness:
  "DESTINATION (ex_state_after_upload ''skip'') = ''gdrive''
   \<and> CONFLICT_MODE (ex_state_after_upload ''skip'') = ''skip''
   \<and> get_list (GDRIVE_EXISTING (ex_state_after_upload ''skip'')) ''2021-05-01_.jpg'' = [''id-0'']
   \<and> save_or_upload_bytes (ex_env ex_jpeg_response []) [8, 9] ''2021-05-01_.jpg''
        (ex_rec ''Image'') ''.jpg'' (ex_state_after_upload ''skip'')
      = (Inr (Return (Skipped [''id-0''])),
         emit (Commit ''2021-05-01_.jpg'') (ex_state_after_upload ''skip''))
   \<and> FileWrite ''2021-05-01_.jpg'' [8, 9]
      \<in> set (trace (snd (save_or_upload_bytes (ex_env ex_jpeg_response []) [8, 9]
            ''2021-05-01_.jpg'' (ex_rec ''Image'') ''.jpg''
            (initial_state [] [(''2021-05-01_.jpg'', [7])]))))"
proof -
  let ?E = "ex_env ex_jpeg_response []"
  let ?S = "ex_state_after_upload ''skip''"
  let ?L = "initial_state [] [(''2021-05-01_.jpg'', [7])]"
  have h: "DESTINATION ?S = ''gdrive''" "CONFLICT_MODE ?S = ''skip''"
      "get_list (GDRIVE_EXISTING ?S) ''2021-05-01_.jpg'' = [''id-0'']"
      "configured ?S" "fst (check_gdrive_space ?E (length [8, 9 :: nat]) ?S) = Inr ()"
    by (simp_all add: ex_after_upload get_list_def configured_def truthy_def
        check_gdrive_space_def ex_env_def)
  have ne: "get_list (GDRIVE_EXISTING ?S) ''2021-05-01_.jpg'' \<noteq> []"
    by (simp add: h(3))
  from h ne skip_only_for_indexed_remote_name [where env = ?E and st = ?S and bts = "[8, 9]"
      and fn = "''2021-05-01_.jpg''" and rec = "ex_rec ''Image''" and ext = "''.jpg''",
      THEN conjunct1]
  have c1: "save_or_upload_bytes ?E [8, 9] ''2021-05-01_.jpg'' (ex_rec ''Image'') ''.jpg'' ?S
      = (Inr (Return (Skipped [''id-0''])), emit (Commit ''2021-05-01_.jpg'') ?S)"
    by simp
  have l: "DESTINATION ?L \<noteq> ''gdrive''" "fst (check_local_space ?E (length [8, 9 :: nat]) ?L) = Inr ()"
    by (simp_all add: initial_state_def check_local_space_def ex_env_def)
  from l skip_only_for_indexed_remote_name [where env = ?E and st = ?L and bts = "[8, 9]"
      and fn = "''2021-05-01_.jpg''" and rec = "ex_rec ''Image''" and ext = "''.jpg''",
      THEN conjunct2]
  have c2: "FileWrite ''2021-05-01_.jpg'' [8, 9]
      \<in> set (trace (snd (save_or_upload_bytes ?E [8, 9] ''2021-05-01_.jpg'' (ex_rec ''Image'')
            ''.jpg'' ?L)))"
    by blast
  from h(1-3) c1 c2 show ?thesis by blast
qed

lemma ex_jpg_suffix: "lower (path_suffix (path_name ''2021-05-01_.jpg'')) = ''.jpg''"
  by code_simp

text \<open>
  Claim C2 as stated fails for the local destination: in the mode \<^verbatim>\<open>skip\<close> (the only mode
  a local run has) a name that is already in the directory is written again, the old
  content is replaced, and the outcome is the saved path.
\<close>

theorem skip_mode_local_overwrites:
  "CONFLICT_MODE (initial_state [] [(''2021-05-01_.jpg'', [7])]) = ''skip''
   \<and> DESTINATION (initial_state [] [(''2021-05-01_.jpg'', [7])]) = ''local''
   \<and> local_files (initial_state [] [(''2021-05-01_.jpg'', [7])]) = [(''2021-05-01_.jpg'', [7])]
   \<and> save_or_upload_bytes (ex_env ex_jpeg_response []) [8, 9] ''2021-05-01_.jpg''
        (ex_rec ''Image'') ''.jpg'' (initial_state [] [(''2021-05-01_.jpg'', [7])])
      = (Inr (Return (Saved ''2021-05-01_.jpg'')),
         (initial_state [] [(''2021-05-01_.jpg'', [8, 9])])
           \<lparr>trace := [Commit ''2021-05-01_.jpg'', FileWrite ''2021-05-01_.jpg'' [8, 9]]\<rparr>)"
  by (simp add: initial_state_def save_or_upload_bytes_def emit_def check_local_space_def
      ex_env_def local_commit_def write_file_metadata_def ex_jpg_suffix record_metadata_def
      parse_location_def ex_rec_def Let_def)

section \<open>Whole runs\<close>

text \<open>Evaluation of the run on the example worlds.\<close>

lemma ex_slice: "iterated_records (replicate 138 (ex_rec ''Video'')) = [ex_rec ''Video'']"
  "iterated_records [ex_rec ''Image''] = []"
  "iterated_records [ex_rec ''Video''] = []"
  by (simp_all add: iterated_records_def ex_rec_def)

lemma ex_jpeg_content_type: "get_extension_from_content_type (Some ''image/jpeg'') = Some ''.jpg''"
  by code_simp

lemma ex_url_not_zip: "endswith (lower ''https://example.org/m1'') ''.zip'' = False"
  by code_simp

lemma ex_plain_remote:
  assumes "DESTINATION st = ''gdrive''" "GDRIVE_SERVICE st = Some Service"
    "GDRIVE_FOLDER_ID st = Some ''folder-0''" "GDRIVE_EXISTING st = []"
  shows "download_and_process (ex_env ex_jpeg_response []) (ex_rec mt) st
     = (Inr (Some [SavedName ''2021-05-01_.jpg'']),
        st\<lparr>GDRIVE_EXISTING := [(''2021-05-01_.jpg'', [''id-'' @ str_nat (length (drive st))])],
            drive := drive st @ [(''id-'' @ str_nat (length (drive st)), ''2021-05-01_.jpg'',
                                  [255, 216, 255])],
            trace := trace st @ [Commit ''2021-05-01_.jpg'',
              DriveCreate ''2021-05-01_.jpg'' [255, 216, 255] ''image/jpeg''
                (record_metadata (ex_env ex_jpeg_response []) (ex_rec mt))]\<rparr>)"
proof -
  have e: "urlopen (ex_env ex_jpeg_response []) u = Response [255, 216, 255] (Some ''image/jpeg'')"
      "is_zipfile (ex_env ex_jpeg_response []) [255, 216, 255] = False"
      "urlparse_path (ex_env ex_jpeg_response []) u = []" for u
    by (simp_all add: ex_env_def ex_jpeg_response_def)
  have p: "path_suffix (path_name []) = []" by code_simp
  have l: "lower ''.jpg'' = ''.jpg''" by code_simp
  have "process_plain (ex_env ex_jpeg_response []) [255, 216, 255] (Some ''.jpg'') (ex_rec mt)
      ''https://example.org/m1'' ''2021-05-01_'' st
     = (Inr (Some [SavedName ''2021-05-01_.jpg'']),
        st\<lparr>GDRIVE_EXISTING := [(''2021-05-01_.jpg'', [''id-'' @ str_nat (length (drive st))])],
            drive := drive st @ [(''id-'' @ str_nat (length (drive st)), ''2021-05-01_.jpg'',
                                  [255, 216, 255])],
            trace := trace st @ [Commit ''2021-05-01_.jpg'',
              DriveCreate ''2021-05-01_.jpg'' [255, 216, 255] ''image/jpeg''
                (record_metadata (ex_env ex_jpeg_response []) (ex_rec mt))]\<rparr>)"
    using assms
    by (simp add: process_plain_def e p l ex_upload_unindexed mime_of_def Let_def)
  then show ?thesis
    by (simp add: download_and_process_def py_or_def truthy_def ex_rec_def e
        ex_jpeg_content_type ex_url_not_zip)
qed

lemma ex_loop_remote:
  assumes "DESTINATION st = ''gdrive''" "GDRIVE_SERVICE st = Some Service"
    "GDRIVE_FOLDER_ID st = Some ''folder-0''" "GDRIVE_EXISTING st = []" "drive st = ex_drive"
  shows "main_loop (ex_env ex_jpeg_response []) [ex_rec ''Video''] [] st
     = (Inr [(''https://example.org/m1'', Some [SavedName ''2021-05-01_.jpg''])],
        st\<lparr>GDRIVE_EXISTING := [(''2021-05-01_.jpg'', [''id-1''])],
            drive := [(''id-old'', ''2021-05-01_.jpg'', [9, 9, 9]),
                      (''id-1'', ''2021-05-01_.jpg'', [255, 216, 255])],
            trace := trace st @ [Print (Processing ''2021-05-01'' [] ''https://example.org/m1''),
              Commit ''2021-05-01_.jpg'',
              DriveCreate ''2021-05-01_.jpg'' [255, 216, 255] ''image/jpeg''
                (record_metadata (ex_env ex_jpeg_response []) (ex_rec ''Video''))]\<rparr>)"
proof -
  let ?E = "ex_env ex_jpeg_response []"
  let ?P = "Processing ''2021-05-01'' [] ''https://example.org/m1''"
  have u: "Media_Download_Url (ex_rec ''Video'') = Some ''https://example.org/m1''"
      "Date (ex_rec ''Video'') = ''2021-05-01''" "Location (ex_rec ''Video'') = []"
    by (simp_all add: ex_rec_def)
  have d: "download_and_process ?E (ex_rec ''Video'') (say ?P st)
     = (Inr (Some [SavedName ''2021-05-01_.jpg'']),
        (say ?P st)\<lparr>GDRIVE_EXISTING :=
              [(''2021-05-01_.jpg'', [''id-'' @ str_nat (length (drive (say ?P st)))])],
            drive := drive (say ?P st)
              @ [(''id-'' @ str_nat (length (drive (say ?P st))), ''2021-05-01_.jpg'',
                  [255, 216, 255])],
            trace := trace (say ?P st) @ [Commit ''2021-05-01_.jpg'',
              DriveCreate ''2021-05-01_.jpg'' [255, 216, 255] ''image/jpeg''
                (record_metadata ?E (ex_rec ''Video''))]\<rparr>)"
    by (rule ex_plain_remote) (simp_all add: assms say_def emit_def)
  have l: "str_nat (length (drive (say ?P st))) = ''1''"
    using str_nat_digits(2) by (simp add: say_def emit_def assms ex_drive_def)
  show ?thesis
    apply (simp add: u d l)
    apply (simp add: say_def emit_def assms ex_drive_def)
    done
qed

lemma ex_run_overwrite:
  "run (ex_env ex_jpeg_response []) (ex_gdrive_input ''overwrite'') (replicate 138 (ex_rec ''Video''))
       (initial_state ex_drive [])
     = (Inr [(''https://example.org/m1'', Some [SavedName ''2021-05-01_.jpg''])],
        \<lparr>DESTINATION = ''gdrive'', GDRIVE_SERVICE = Some Service,
          GDRIVE_FOLDER_ID = Some ''folder-0'', CONFLICT_MODE = ''overwrite'',
          GDRIVE_EXISTING = [(''2021-05-01_.jpg'', [''id-1''])],
          drive = [(''id-old'', ''2021-05-01_.jpg'', [9, 9, 9]),
                   (''id-1'', ''2021-05-01_.jpg'', [255, 216, 255])],
          local_files = [],
          trace = [Print GDriveSelected,
               Print (Processing ''2021-05-01'' [] ''https://example.org/m1''),
               Commit ''2021-05-01_.jpg'',
               DriveCreate ''2021-05-01_.jpg'' [255, 216, 255] ''image/jpeg''
                 (record_metadata (ex_env ex_jpeg_response []) (ex_rec ''Video'')),
               ReportWrite, Print (Downloaded 1)]\<rparr>)"
proof -
  let ?E = "ex_env ex_jpeg_response []"
  let ?S1 = "\<lparr>DESTINATION = ''gdrive'', GDRIVE_SERVICE = Some Service,
          GDRIVE_FOLDER_ID = Some ''folder-0'', CONFLICT_MODE = ''overwrite'', GDRIVE_EXISTING = [],
          drive = ex_drive, local_files = [], trace = [Print GDriveSelected]\<rparr>"
  have p: "prompt_destination ?E (ex_gdrive_input ''overwrite'') (initial_state ex_drive [])
      = (Inr (), ?S1)"
    by (simp add: ex_prompt)
  have f: "new_filter ?E recs ?S1 = (Inr recs, ?S1)" for recs
    by (simp add: new_filter_def)
  have m: "main_loop ?E [ex_rec ''Video''] [] ?S1 = (Inr [(''https://example.org/m1'', Some [SavedName ''2021-05-01_.jpg''])],
        ?S1\<lparr>GDRIVE_EXISTING := [(''2021-05-01_.jpg'', [''id-1''])],
            drive := [(''id-old'', ''2021-05-01_.jpg'', [9, 9, 9]),
                      (''id-1'', ''2021-05-01_.jpg'', [255, 216, 255])],
            trace := trace ?S1 @ [Print (Processing ''2021-05-01'' [] ''https://example.org/m1''),
              Commit ''2021-05-01_.jpg'',
              DriveCreate ''2021-05-01_.jpg'' [255, 216, 255] ''image/jpeg''
                (record_metadata (ex_env ex_jpeg_response []) (ex_rec ''Video''))]\<rparr>)"
    by (rule ex_loop_remote) simp_all
  show ?thesis
    apply (simp add: run_def p f ex_slice m del: main_loop.simps)
    apply (simp add: say_def emit_def count_processed_def)
    done
qed

lemma ex_run_new:
  "run (ex_env ex_jpeg_response []) (ex_gdrive_input ''new'') (replicate 138 (ex_rec ''Video''))
       (initial_state ex_drive [])
     = (Inr [(''https://example.org/m1'', Some [SavedName ''2021-05-01_.jpg''])],
        \<lparr>DESTINATION = ''gdrive'', GDRIVE_SERVICE = Some Service,
          GDRIVE_FOLDER_ID = Some ''folder-0'', CONFLICT_MODE = ''new'',
          GDRIVE_EXISTING = [(''2021-05-01_.jpg'', [''id-1''])],
          drive = [(''id-old'', ''2021-05-01_.jpg'', [9, 9, 9]),
                   (''id-1'', ''2021-05-01_.jpg'', [255, 216, 255])],
          local_files = [],
          trace = [Print GDriveSelected, Print (NewSkipping 0 138),
               Print (Processing ''2021-05-01'' [] ''https://example.org/m1''),
               Commit ''2021-05-01_.jpg'',
               DriveCreate ''2021-05-01_.jpg'' [255, 216, 255] ''image/jpeg''
                 (record_metadata (ex_env ex_jpeg_response []) (ex_rec ''Video'')),
               ReportWrite, Print (Downloaded 1)]\<rparr>)"
proof -
  let ?E = "ex_env ex_jpeg_response []"
  let ?S1 = "\<lparr>DESTINATION = ''gdrive'', GDRIVE_SERVICE = Some Service,
          GDRIVE_FOLDER_ID = Some ''folder-0'', CONFLICT_MODE = ''new'', GDRIVE_EXISTING = [],
          drive = ex_drive, local_files = [], trace = [Print GDriveSelected]\<rparr>"
  let ?S2 = "\<lparr>DESTINATION = ''gdrive'', GDRIVE_SERVICE = Some Service,
          GDRIVE_FOLDER_ID = Some ''folder-0'', CONFLICT_MODE = ''new'', GDRIVE_EXISTING = [],
          drive = ex_drive, local_files = [],
          trace = [Print GDriveSelected, Print (NewSkipping 0 138)]\<rparr>"
  have p: "prompt_destination ?E (ex_gdrive_input ''new'') (initial_state ex_drive [])
      = (Inr (), ?S1)"
    by (simp add: ex_prompt)
  have f: "new_filter ?E (replicate 138 (ex_rec ''Video'')) ?S1
      = (Inr (replicate 138 (ex_rec ''Video'')), ?S2)"
    by (simp add: new_filter_def configured_def truthy_def exists_at_def say_def emit_def)
  have m: "main_loop ?E [ex_rec ''Video''] [] ?S2 = (Inr [(''https://example.org/m1'', Some [SavedName ''2021-05-01_.jpg''])],
        ?S2\<lparr>GDRIVE_EXISTING := [(''2021-05-01_.jpg'', [''id-1''])],
            drive := [(''id-old'', ''2021-05-01_.jpg'', [9, 9, 9]),
                      (''id-1'', ''2021-05-01_.jpg'', [255, 216, 255])],
            trace := trace ?S2 @ [Print (Processing ''2021-05-01'' [] ''https://example.org/m1''),
              Commit ''2021-05-01_.jpg'',
              DriveCreate ''2021-05-01_.jpg'' [255, 216, 255] ''image/jpeg''
                (record_metadata (ex_env ex_jpeg_response []) (ex_rec ''Video''))]\<rparr>)"
    by (rule ex_loop_remote) simp_all
  show ?thesis
    apply (simp add: run_def p f ex_slice m del: main_loop.simps)
    apply (simp add: say_def emit_def count_processed_def)
    done
qed

section \<open>The conflict modes against the in-memory dictionary\<close>

lemma delete_existing_all:
  "(\<And>fid. fid \<in> set ids \<Longrightarrow> drive_delete env fid) \<Longrightarrow>
   delete_existing env fn ids st
     = (Inr (), st\<lparr>drive := filter (\<lambda>obj. fst obj \<notin> set ids) (drive st),
                    trace := trace st @ map DriveDelete ids\<rparr>)"
proof (induction ids arbitrary: st)
  case Nil
  show ?case by simp
next
  case (Cons fid fids)
  have ok: "drive_delete env fid" using Cons.prems by simp
  let ?st1 = "(emit (DriveDelete fid) st)\<lparr>drive := filter (\<lambda>obj. fst obj \<noteq> fid) (drive st)\<rparr>"
  have "delete_existing env fn fids ?st1
      = (Inr (), ?st1\<lparr>drive := filter (\<lambda>obj. fst obj \<notin> set fids) (drive ?st1),
                       trace := trace ?st1 @ map DriveDelete fids\<rparr>)"
    using Cons.prems by (intro Cons.IH) simp
  moreover have "filter (\<lambda>obj. fst obj \<notin> set fids) (filter (\<lambda>obj. fst obj \<noteq> fid) d)
      = filter (\<lambda>obj. fst obj \<notin> set (fid # fids)) d" for d :: "(string \<times> string \<times> bytes) list"
    by (induction d) auto
  ultimately show ?case
    using ok by (simp add: emit_def)
qed

lemma delete_existing_first_failure:
  "(\<And>fid. fid \<in> set pre \<Longrightarrow> drive_delete env fid) \<Longrightarrow> \<not> drive_delete env bad \<Longrightarrow>
   delete_existing env fn (pre @ bad # post) st
     = die (DeleteFailed bad fn)
         (st\<lparr>drive := filter (\<lambda>obj. fst obj \<notin> set pre) (drive st),
              trace := trace st @ map DriveDelete pre @ [DriveDelete bad]\<rparr>)"
proof (induction pre arbitrary: st)
  case Nil
  then show ?case by (simp add: emit_def)
next
  case (Cons fid fids)
  have ok: "drive_delete env fid" using Cons.prems by simp
  let ?st1 = "(emit (DriveDelete fid) st)\<lparr>drive := filter (\<lambda>obj. fst obj \<noteq> fid) (drive st)\<rparr>"
  have "delete_existing env fn (fids @ bad # post) ?st1
      = die (DeleteFailed bad fn)
          (?st1\<lparr>drive := filter (\<lambda>obj. fst obj \<notin> set fids) (drive ?st1),
                 trace := trace ?st1 @ map DriveDelete fids @ [DriveDelete bad]\<rparr>)"
    using Cons.prems by (intro Cons.IH) simp_all
  moreover have "filter (\<lambda>obj. fst obj \<notin> set fids) (filter (\<lambda>obj. fst obj \<noteq> fid) d)
      = filter (\<lambda>obj. fst obj \<notin> set (fid # fids)) d" for d :: "(string \<times> string \<times> bytes) list"
    by (induction d) auto
  ultimately show ?case
    using ok by (simp add: emit_def)
qed

text \<open>
  The overwrite branch against the dictionary: every recorded id is deleted, in order,
  before the upload is invoked; the first delete that fails exits, and nothing is
  uploaded; after a successful commit the dictionary holds the new id alone.
\<close>

lemma overwrite_on_index:
  assumes "DESTINATION st = ''gdrive''" "CONFLICT_MODE st = ''overwrite''" "configured st"
    and "fst (check_gdrive_space env (length bts) st) = Inr ()"
    and "get_list (GDRIVE_EXISTING st) fn = ids" "ids \<noteq> []"
    and "\<And>fid. fid \<in> set ids \<Longrightarrow> drive_delete env fid"
    and "drive_create env fn bts (filter (\<lambda>obj. fst obj \<notin> set ids) (drive st)) = Created nid link"
  shows "save_or_upload_bytes env bts fn rec ext st
     = (Inr (Return (Uploaded nid link)),
        st\<lparr>GDRIVE_EXISTING := AList.update fn [nid] (AList.delete fn (GDRIVE_EXISTING st)),
            drive := filter (\<lambda>obj. fst obj \<notin> set ids) (drive st) @ [(nid, fn, bts)],
            trace := trace st @ Commit fn # map DriveDelete ids
                     @ [DriveCreate fn bts (mime_of ext) (record_metadata env rec)]\<rparr>)"
proof -
  let ?st = "emit (Commit fn) st"
  have c: "configured ?st" "DESTINATION ?st = ''gdrive''"
    using assms by (simp_all add: configured_def emit_def)
  have q: "check_gdrive_space env (length bts) ?st = (Inr (), ?st)"
    using assms(4) by (simp add: check_gdrive_space_ok check_gdrive_space_emit)
  have i: "get_list (GDRIVE_EXISTING ?st) fn = ids" "CONFLICT_MODE ?st = ''overwrite''"
    using assms by (simp_all add: emit_def)
  let ?st1 = "?st\<lparr>drive := filter (\<lambda>obj. fst obj \<notin> set ids) (drive ?st),
                    trace := trace ?st @ map DriveDelete ids\<rparr>"
  have d: "delete_existing env fn ids ?st = (Inr (), ?st1)"
    using assms(7) by (rule delete_existing_all)
  let ?st2 = "?st1\<lparr>GDRIVE_EXISTING := AList.delete fn (GDRIVE_EXISTING ?st1)\<rparr>"
  have g: "get_list (AList.delete fn al) fn = []" for al :: "(string \<times> string list) list"
    by (simp add: get_list_def delete_conv')
  have p: "gdrive_put env bts fn rec ext ?st2
      = (Inr (Return (Uploaded nid link)),
        st\<lparr>GDRIVE_EXISTING := AList.update fn [nid] (AList.delete fn (GDRIVE_EXISTING st)),
            drive := filter (\<lambda>obj. fst obj \<notin> set ids) (drive st) @ [(nid, fn, bts)],
            trace := trace st @ Commit fn # map DriveDelete ids
                     @ [DriveCreate fn bts (mime_of ext) (record_metadata env rec)]\<rparr>)"
    using assms(8) by (simp add: gdrive_put_def upload_bytes_to_gdrive_def emit_def g Let_def)
  have "gdrive_commit env bts fn rec ext ?st
      = gdrive_put env bts fn rec ext ?st2"
    using i assms(6) d by (simp add: gdrive_commit_def Let_def)
  with c q p show ?thesis
    by (simp add: save_or_upload_bytes_def Let_def)
qed

text \<open>
  When the dictionary holds the ids of all objects of that name, the folder holds the
  new object alone under the name afterwards.
\<close>

lemma overwrite_on_index_single:
  assumes "\<And>obj. obj \<in> set d \<Longrightarrow> fst (snd obj) = fn \<Longrightarrow> fst obj \<in> set ids"
  shows "filter (\<lambda>obj. fst (snd obj) = fn) (filter (\<lambda>obj. fst obj \<notin> set ids) d @ [(nid, fn, bts)])
     = [(nid, fn, bts)]"
proof -
  have "filter (\<lambda>obj. fst (snd obj) = fn) (filter (\<lambda>obj. fst obj \<notin> set ids) d) = []"
    using assms by (auto simp: filter_empty_conv)
  then show ?thesis by simp
qed

text \<open>
  The pre-filter against the names it is given: a record is kept exactly when no name
  starts with its prefix.
\<close>

lemma new_filter_on_names:
  assumes "CONFLICT_MODE st = ''new''" and "new_filter env records st = (Inr records', st')"
  shows "\<exists>names. records' = filter (\<lambda>rec. \<not> exists_at names rec) records
     \<and> names = (if DESTINATION st = ''gdrive'' then map fst (GDRIVE_EXISTING st)
                else map fst (local_files st))"
  using assms
  by (auto simp: new_filter_def get_local_existing_set_def die_def split: if_splits)

text \<open>
  The loop itself reports every record it is given: after a loop that did not exit, the
  report has an entry for the URL of each record that has one.
\<close>

lemma main_loop_reports:
  "main_loop env recs all_saved st = (Inr all_saved', st') \<Longrightarrow>
   fst ` set all_saved \<subseteq> fst ` set all_saved'
   \<and> (\<forall>rec \<in> set recs. \<forall>url. Media_Download_Url rec = Some url \<and> url \<noteq> []
         \<longrightarrow> url \<in> fst ` set all_saved')"
proof (induction recs arbitrary: all_saved st)
  case Nil
  then show ?case by simp
next
  case (Cons rec recs)
  show ?case
  proof (cases "Media_Download_Url rec")
    case None
    with Cons.prems have "main_loop env recs all_saved st = (Inr all_saved', st')" by simp
    from Cons.IH [OF this] None show ?thesis by auto
  next
    case (Some url)
    show ?thesis
    proof (cases "url = []")
      case True
      with Some Cons.prems have "main_loop env recs all_saved st = (Inr all_saved', st')" by simp
      from Cons.IH [OF this] Some True show ?thesis by auto
    next
      case False
      let ?r = "download_and_process env rec (say (Processing (Date rec) (Location rec) url) st)"
      obtain a s1 where r: "?r = (a, s1)" by (cases ?r)
      with Some False Cons.prems obtain saved where a: "a = Inr saved"
        and m: "main_loop env recs (AList.update url saved all_saved) s1 = (Inr all_saved', st')"
        by (cases a) auto
      have k: "fst ` set (AList.update url saved all_saved) = insert url (fst ` set all_saved)"
        by (simp add: dom_update)
      from Cons.IH [OF m] k Some show ?thesis by auto
    qed
  qed
qed

section \<open>Runs that depart from the specification\<close>

text \<open>
  Claim C6 on a remote folder that already holds \<^verbatim>\<open>2021-05-01_.jpg\<close>, in the mode
  \<^verbatim>\<open>overwrite\<close>, for an export of 138 video records (the loop starts at the 138th): the
  listing of the folder finds the old object, the module's dictionary stays empty, no
  delete is invoked, and after the run the folder holds the old object and the new one
  under the same name.
\<close>

theorem overwrite_run_keeps_old_object:
  "build_gdrive_existing_map (ex_env ex_jpeg_response []) ex_drive
     = Some [(''2021-05-01_.jpg'', [''id-old''])]
   \<and> GDRIVE_EXISTING (snd (prompt_destination (ex_env ex_jpeg_response [])
         (ex_gdrive_input ''overwrite'') (initial_state ex_drive []))) = []
   \<and> fst (run (ex_env ex_jpeg_response []) (ex_gdrive_input ''overwrite'')
         (replicate 138 (ex_rec ''Video'')) (initial_state ex_drive []))
     = Inr [(''https://example.org/m1'', Some [SavedName ''2021-05-01_.jpg''])]
   \<and> drive (snd (run (ex_env ex_jpeg_response []) (ex_gdrive_input ''overwrite'')
         (replicate 138 (ex_rec ''Video'')) (initial_state ex_drive [])))
     = [(''id-old'', ''2021-05-01_.jpg'', [9, 9, 9]),
        (''id-1'', ''2021-05-01_.jpg'', [255, 216, 255])]
   \<and> trace (snd (run (ex_env ex_jpeg_response []) (ex_gdrive_input ''overwrite'')
         (replicate 138 (ex_rec ''Video'')) (initial_state ex_drive [])))
     = [Print GDriveSelected,
        Print (Processing ''2021-05-01'' [] ''https://example.org/m1''),
        Commit ''2021-05-01_.jpg'',
        DriveCreate ''2021-05-01_.jpg'' [255, 216, 255] ''image/jpeg''
          (record_metadata (ex_env ex_jpeg_response []) (ex_rec ''Video'')),
        ReportWrite, Print (Downloaded 1)]"
proof -
  have "build_gdrive_existing_map (ex_env ex_jpeg_response []) ex_drive
     = Some [(''2021-05-01_.jpg'', [''id-old''])]"
    by (simp add: build_gdrive_existing_map_def ex_env_def ex_drive_def get_list_def)
  moreover have "GDRIVE_EXISTING (snd (prompt_destination (ex_env ex_jpeg_response [])
         (ex_gdrive_input ''overwrite'') (initial_state ex_drive []))) = []"
    by (simp add: ex_prompt)
  ultimately show ?thesis
    by (simp add: ex_run_overwrite)
qed

text \<open>
  Claim C7 on the same folder in the mode \<^verbatim>\<open>new\<close>: the prefix of the records is a prefix
  of the name the folder holds, yet the pre-filter keeps all 138 records (it reads the
  empty dictionary), the 138th is processed and uploaded, and the report has its entry.
\<close>

theorem new_mode_run_keeps_existing_record:
  "startswith ''2021-05-01_.jpg'' (u_prefix (ex_rec ''Video''))
   \<and> fst (new_filter (ex_env ex_jpeg_response []) (replicate 138 (ex_rec ''Video''))
           (snd (prompt_destination (ex_env ex_jpeg_response []) (ex_gdrive_input ''new'')
                   (initial_state ex_drive []))))
     = Inr (replicate 138 (ex_rec ''Video''))
   \<and> fst (run (ex_env ex_jpeg_response []) (ex_gdrive_input ''new'')
         (replicate 138 (ex_rec ''Video'')) (initial_state ex_drive []))
     = Inr [(''https://example.org/m1'', Some [SavedName ''2021-05-01_.jpg''])]
   \<and> drive (snd (run (ex_env ex_jpeg_response []) (ex_gdrive_input ''new'')
         (replicate 138 (ex_rec ''Video'')) (initial_state ex_drive [])))
     = [(''id-old'', ''2021-05-01_.jpg'', [9, 9, 9]),
        (''id-1'', ''2021-05-01_.jpg'', [255, 216, 255])]"
proof -
  have "startswith ''2021-05-01_.jpg'' (u_prefix (ex_rec ''Video''))"
    by (simp add: ex_rec_def)
  moreover have "fst (new_filter (ex_env ex_jpeg_response []) (replicate 138 (ex_rec ''Video''))
           (snd (prompt_destination (ex_env ex_jpeg_response []) (ex_gdrive_input ''new'')
                   (initial_state ex_drive []))))
     = Inr (replicate 138 (ex_rec ''Video''))"
    by (simp add: ex_prompt new_filter_def configured_def truthy_def exists_at_def)
  ultimately show ?thesis
    by (simp add: ex_run_new)
qed

text \<open>
  Claim C1 on an export of one record with a download URL: whether its media type is
  \<^verbatim>\<open>Image\<close> or \<^verbatim>\<open>Video\<close>, the run downloads nothing and writes an empty report, since the
  loop iterates \<^verbatim>\<open>videos[137:]\<close>.
\<close>

theorem run_leaves_records_out:
  "Media_Download_Url (ex_rec ''Image'') = Some ''https://example.org/m1''
   \<and> run (ex_env ex_jpeg_response []) ex_local_input [ex_rec ''Image''] (initial_state [] [])
     = (Inr [], (initial_state [] [])\<lparr>trace := [ReportWrite, Print (Downloaded 0)]\<rparr>)
   \<and> Media_Download_Url (ex_rec ''Video'') = Some ''https://example.org/m1''
   \<and> run (ex_env ex_jpeg_response []) ex_local_input [ex_rec ''Video''] (initial_state [] [])
     = (Inr [], (initial_state [] [])\<lparr>trace := [ReportWrite, Print (Downloaded 0)]\<rparr>)"
proof -
  have p: "prompt_destination (ex_env ex_jpeg_response []) ex_local_input st = (Inr (), st)" for st
    by (simp add: prompt_destination_def ex_local_input_def ex_input_words)
  have f: "new_filter (ex_env ex_jpeg_response []) recs st = (Inr recs, st)"
    if "CONFLICT_MODE st \<noteq> ''new''" for recs st
    using that by (simp add: new_filter_def)
  have r: "run (ex_env ex_jpeg_response []) ex_local_input recs (initial_state [] [])
      = (Inr [], (initial_state [] [])\<lparr>trace := [ReportWrite, Print (Downloaded 0)]\<rparr>)"
    if "iterated_records recs = []" for recs
    using that by (simp add: run_def p f count_processed_def say_def emit_def initial_state_def)
  have u: "Media_Download_Url (ex_rec mt) = Some ''https://example.org/m1''" for mt
    by (simp add: ex_rec_def)
  from r [OF ex_slice(2)] r [OF ex_slice(3)] u show ?thesis
    by blast
qed

section \<open>Two main members of one base\<close>

lemma ex_two_mains:
  "classify ''abc-main.jpg'' = Main ''abc''"
  "classify ''abc-main.jpeg'' = Main ''abc''"
  "collect_members [''abc-main.jpg'', ''abc-main.jpeg''] = ([(''abc'', ''abc-main.jpeg'')], [])"
  "member_ext ''abc-main.jpeg'' = ''.jpeg''"
  "lower (path_suffix (path_name ''2021-05-01_.jpeg'')) = ''.jpeg''"
  by code_simp+

lemma ex_two_mains_run:
  "download_and_process
      (ex_env ex_zip_response [(''abc-main.jpg'', [7]), (''abc-main.jpeg'', [8])])
      (ex_rec ''Image'') (initial_state [] [])
    = (Inr (Some [Saved ''2021-05-01_.jpeg'']),
       (initial_state [] [(''2021-05-01_.jpeg'', [8])])
         \<lparr>trace := [Commit ''2021-05-01_.jpeg'', FileWrite ''2021-05-01_.jpeg'' [8]]\<rparr>)"
  by (simp add: download_and_process_def py_or_def truthy_def ex_rec_def ex_env_def
      ex_zip_response_def ex_zip_content_type process_zip_def ex_zip_def ex_two_mains
      process_image_def get_list_def out_filename_def save_or_upload_bytes_def
      check_local_space_def local_commit_def write_file_metadata_def record_metadata_def
      parse_location_def initial_state_def emit_def Let_def)

text \<open>
  An archive with two mains of the base \<^verbatim>\<open>abc\<close>: the dictionary holds the later one, and
  the record yields one file, made from the later member, and prints nothing.
\<close>

theorem last_main_wins_witness:
  "map_of (fst (collect_members [''abc-main.jpg'', ''abc-main.jpeg''])) ''abc''
     = Some ''abc-main.jpeg''
   \<and> download_and_process
      (ex_env ex_zip_response [(''abc-main.jpg'', [7]), (''abc-main.jpeg'', [8])])
      (ex_rec ''Image'') (initial_state [] [])
    = (Inr (Some [Saved ''2021-05-01_.jpeg'']),
       (initial_state [] [(''2021-05-01_.jpeg'', [8])])
         \<lparr>trace := [Commit ''2021-05-01_.jpeg'', FileWrite ''2021-05-01_.jpeg'' [8]]\<rparr>)"
proof -
  have "filter (\<lambda>m. classify m = Main ''abc'') [''abc-main.jpg'', ''abc-main.jpeg'']
      = [''abc-main.jpg'', ''abc-main.jpeg'']"
    by (simp add: ex_two_mains)
  with last_main_wins [of "[''abc-main.jpg'', ''abc-main.jpeg'']" "''abc''"]
  have "map_of (fst (collect_members [''abc-main.jpg'', ''abc-main.jpeg''])) ''abc''
     = Some ''abc-main.jpeg''"
    by simp
  with ex_two_mains_run show ?thesis by blast
qed

section \<open>Embedding failures without a message\<close>


end
